theory Spec2Isabelle
  imports Main "HOL-Library.Word"
begin

section \<open>Data model of the transfer keeper\<close>

text \<open>
  The keeper of \<^verbatim>\<open>src/unnamed/part_000\<close> (package \<^verbatim>\<open>keeper\<close> of the ICS-20
  transfer application) is embedded function by function. A Go method
  \<^verbatim>\<open>func (k Keeper) F(ctx, a, b) error\<close> becomes \<open>F k ctx a b\<close>, which returns the
  outcome of the call together with the context as the call leaves it, so that the
  writes made before an error or a panic stay visible.

  Addresses, ports, channels and denominations are strings; denomination strings are
  taken to be syntactically valid (the SDK's denomination syntax check is not modelled),
  and \<^verbatim>\<open>sdkmath.Int\<close> is an unbounded integer.
\<close>

type_synonym AccAddress = string
type_synonym bytes = "8 word list"

datatype Hop = NewHop (PortId: string) (ChannelId: string)

datatype Denom = NewDenom (Base: string) (Trace: "Hop list")

datatype Token = Token (Denom: Denom) (Amount: string)

datatype Coin = Coin (GetDenom: string) (CoinAmount: int)

datatype ForwardingPacketData =
  NewForwardingPacketData (DestinationMemo: string) (Hops: "Hop list")

datatype FungibleTokenPacketData =
  NewFungibleTokenPacketData string string string string string

datatype FungibleTokenPacketDataV2 =
  NewFungibleTokenPacketDataV2 (Tokens: "Token list") (Sender: string) (Receiver: string)
    (Memo: string) (Forwarding: ForwardingPacketData)

datatype Packet =
  Packet (Sequence: nat) (SourcePort: string) (SourceChannel: string)
    (DestinationPort: string) (DestinationChannel: string)

text \<open>
  \<^verbatim>\<open>channeltypes.Acknowledgement\<close>: its \<^verbatim>\<open>Response\<close> is an interface value, which is
  a result, an error, or nil.
\<close>

datatype Acknowledgement =
    Acknowledgement_Result bytes
  | Acknowledgement_Error string
  | Acknowledgement_Nil

subsection \<open>Errors, panics and outcomes\<close>

text \<open>
  The registered errors the keeper returns, an error \<open>ErrOther\<close> raised by a collaborator
  (bank, address codec, validation), and the two wrappers: \<open>Wrap e msg\<close> is
  \<^verbatim>\<open>errorsmod.Wrap(e, msg)\<close> (format arguments of \<^verbatim>\<open>Wrapf\<close> are left out of the
  message), \<open>WrapError e e'\<close> is \<^verbatim>\<open>errorsmod.Wrap(e, e'.Error())\<close>.
\<close>

datatype error =
    ErrSendDisabled
  | ErrReceiveDisabled
  | ErrUnauthorized
  | ErrInvalidAmount
  | ErrInvalidType
  | ErrInvalidRequest
  | ErrInvalidVersion
  | ErrOther string
  | Wrap error string
  | WrapError error error

text \<open>The registered error at the root of a chain of wrappers (what \<^verbatim>\<open>errors.Is\<close> sees).\<close>

fun Cause :: "error \<Rightarrow> error" where
  "Cause (Wrap e m) = Cause e"
| "Cause (WrapError e e') = Cause e"
| "Cause e = e"

text \<open>
  A call returns a value with a nil error (\<open>Success\<close>), returns an error (\<open>Failure\<close>),
  or panics (\<open>Fatal\<close>, with the panic's message).
\<close>

datatype 'a result = Success 'a | Failure error | Fatal string

subsection \<open>The context: the state the keeper reads and writes\<close>

record Params =
  SendEnabled :: bool
  ReceiveEnabled :: bool

text \<open>
  \<open>bank\<close> is the state of the bank module, of a type \<open>'b\<close> the keeper never looks into;
  \<open>totalEscrow\<close> is the keeper's escrow total per denomination; \<open>denoms\<close> is the registry
  of denominations by hash; \<open>events\<close> are the denomination events emitted; \<open>acks\<close> are
  the acknowledgements handed to the relay layer.
\<close>

record 'b Ctx =
  bank :: 'b
  GetParams :: Params
  totalEscrow :: "string \<Rightarrow> int"
  denoms :: "string \<Rightarrow> Denom option"
  events :: "Token list"
  acks :: "(Packet \<times> Acknowledgement) list"

subsection \<open>Collaborators\<close>

text \<open>
  The bank keeper is an interface of the keeper; its methods are parameters. Each
  mutating method returns its error (or none) with the bank state it leaves.
\<close>

record 'b BankKeeper =
  SendCoins :: "'b \<Rightarrow> AccAddress \<Rightarrow> AccAddress \<Rightarrow> Coin list \<Rightarrow> error option \<times> 'b"
  SendCoinsFromAccountToModule :: "'b \<Rightarrow> AccAddress \<Rightarrow> string \<Rightarrow> Coin list \<Rightarrow> error option \<times> 'b"
  BurnCoins :: "'b \<Rightarrow> string \<Rightarrow> Coin list \<Rightarrow> error option \<times> 'b"
  MintCoins :: "'b \<Rightarrow> string \<Rightarrow> Coin list \<Rightarrow> error option \<times> 'b"
  IsSendEnabledCoins :: "'b \<Rightarrow> Coin \<Rightarrow> error option"
  HasDenomMetaData :: "'b \<Rightarrow> string \<Rightarrow> bool"
  SetDenomMetaData :: "'b \<Rightarrow> Denom \<Rightarrow> 'b"

text \<open>
  The functions of package \<^verbatim>\<open>types\<close> (and of the SDK) that the keeper calls and that
  are not part of the sources at hand: parameters as well.
\<close>

record Types =
  GetEscrowAddress :: "string \<Rightarrow> string \<Rightarrow> AccAddress"
  NewIntFromString :: "string \<Rightarrow> int option"
  IBCDenom :: "Denom \<Rightarrow> string"
  Hash :: "Denom \<Rightarrow> string"
  AccAddressFromBech32 :: "string \<Rightarrow> error + AccAddress"
  ValidateBasic :: "FungibleTokenPacketDataV2 \<Rightarrow> error option"
  GetBytes :: "FungibleTokenPacketDataV2 \<Rightarrow> bytes"
  ValidateBasicV1 :: "FungibleTokenPacketData \<Rightarrow> error option"
  GetBytesV1 :: "FungibleTokenPacketData \<Rightarrow> bytes"
  NewForwardErrorAcknowledgement :: "Packet \<Rightarrow> Acknowledgement \<Rightarrow> Acknowledgement"
  NewForwardTimeoutAcknowledgement :: "Packet \<Rightarrow> Acknowledgement"

text \<open>
  The keeper itself: its bank keeper, the module address resolver of its account keeper,
  and those of its own methods that part_000 calls and does not define.
\<close>

record 'b Keeper =
  BankKeeper :: "'b BankKeeper"
  types :: Types
  GetModuleAddress :: "string \<Rightarrow> AccAddress"
  IsBlockedAddr :: "AccAddress \<Rightarrow> bool"
  getReceiverFromPacketData :: "FungibleTokenPacketDataV2 \<Rightarrow> error + AccAddress"
  revertForwardedPacket ::
    "'b Ctx \<Rightarrow> Packet \<Rightarrow> FungibleTokenPacketDataV2 \<Rightarrow> unit result \<times> 'b Ctx"
  WriteAcknowledgement :: "'b Ctx \<Rightarrow> Packet \<Rightarrow> Acknowledgement \<Rightarrow> error option"

definition ModuleName :: string where
  "ModuleName = ''transfer''"

definition V1 :: string where
  "V1 = ''ics20-1''"

definition V2 :: string where
  "V2 = ''ics20-2''"

section \<open>Coins\<close>

text \<open>
  Modelled from the spec: \<^verbatim>\<open>sdk.NewCoin\<close>, \<^verbatim>\<open>sdk.NewCoins\<close>, \<^verbatim>\<open>Coin.Add\<close> and
  \<^verbatim>\<open>Coin.Sub\<close> belong to the SDK and are not in the sources. A coin amount is a
  non-negative integer (spec section 3): \<open>NewCoin\<close> panics on a negative amount;
  \<open>NewCoins\<close> of one coin drops a zero coin and panics on a negative one; \<open>Add\<close> and
  \<open>Sub\<close> panic on different denominations, and \<open>Sub\<close> panics when the difference
  would be negative.
\<close>

definition NewCoin :: "string \<Rightarrow> int \<Rightarrow> Coin result" where
  "NewCoin denom amt =
     (if amt < 0 then Fatal ''negative coin amount'' else Success (Coin denom amt))"

definition NewCoins :: "Coin \<Rightarrow> Coin list result" where
  "NewCoins coin =
     (if CoinAmount coin = 0 then Success []
      else if CoinAmount coin < 0 then Fatal ''invalid coin set''
      else Success [coin])"

definition Add :: "Coin \<Rightarrow> Coin \<Rightarrow> Coin result" where
  "Add coin coinB =
     (if GetDenom coin \<noteq> GetDenom coinB then Fatal ''invalid coin denoms''
      else Success (Coin (GetDenom coin) (CoinAmount coin + CoinAmount coinB)))"

definition Sub :: "Coin \<Rightarrow> Coin \<Rightarrow> Coin result" where
  "Sub coin coinB =
     (if GetDenom coin \<noteq> GetDenom coinB then Fatal ''invalid coin denoms''
      else if CoinAmount coin - CoinAmount coinB < 0 then Fatal ''negative coin amount''
      else Success (Coin (GetDenom coin) (CoinAmount coin - CoinAmount coinB)))"

section \<open>The escrow ledger\<close>

text \<open>
  Modelled from the spec: \<^verbatim>\<open>GetTotalEscrowForDenom\<close> and \<^verbatim>\<open>SetTotalEscrowForDenom\<close>
  are methods of the keeper that are not in the sources. The escrow total is a map from
  the denomination to a non-negative integer (spec section 6): reading gives the total
  as a coin of that denomination, and a negative total cannot be stored.
\<close>

definition GetTotalEscrowForDenom :: "'b Ctx \<Rightarrow> string \<Rightarrow> Coin" where
  "GetTotalEscrowForDenom ctx denom = Coin denom (totalEscrow ctx denom)"

definition SetTotalEscrowForDenom :: "'b Ctx \<Rightarrow> Coin \<Rightarrow> unit result \<times> 'b Ctx" where
  "SetTotalEscrowForDenom ctx coin =
     (if CoinAmount coin < 0 then (Fatal ''amount cannot be negative'', ctx)
      else (Success (),
            ctx\<lparr>totalEscrow := (totalEscrow ctx)(GetDenom coin := CoinAmount coin)\<rparr>))"

text \<open>
  A call \<^verbatim>\<open>k.BankKeeper.F(ctx, ..., sdk.NewCoins(coin))\<close>: the argument
  \<^verbatim>\<open>sdk.NewCoins(coin)\<close> is evaluated, then the method \<open>f\<close> of the bank runs on
  the bank state of the context.
\<close>

definition bankCall ::
  "('b \<Rightarrow> Coin list \<Rightarrow> error option \<times> 'b) \<Rightarrow> 'b Ctx \<Rightarrow> Coin \<Rightarrow> unit result \<times> 'b Ctx" where
  "bankCall f ctx coin =
     (case NewCoins coin of
        Fatal m \<Rightarrow> (Fatal m, ctx)
      | Failure e \<Rightarrow> (Failure e, ctx)
      | Success coins \<Rightarrow>
          (case f (bank ctx) coins of
             (Some err, b) \<Rightarrow> (Failure err, ctx\<lparr>bank := b\<rparr>)
           | (None, b) \<Rightarrow> (Success (), ctx\<lparr>bank := b\<rparr>)))"

text \<open>
  \<^verbatim>\<open>EscrowCoin\<close> (lines 358 to 370): send the coin from the sender to the escrow
  address; an error of the bank is returned as it is; otherwise the coin is added to the
  total escrow of its denomination.
\<close>

definition EscrowCoin ::
  "'b Keeper \<Rightarrow> 'b Ctx \<Rightarrow> AccAddress \<Rightarrow> AccAddress \<Rightarrow> Coin \<Rightarrow> unit result \<times> 'b Ctx" where
  "EscrowCoin k ctx sender escrowAddress coin =
     (case bankCall (\<lambda>b. SendCoins (BankKeeper k) b sender escrowAddress) ctx coin of
        (Fatal m, ctx1) \<Rightarrow> (Fatal m, ctx1)
      | (Failure err, ctx1) \<Rightarrow> (Failure err, ctx1)
      | (Success u, ctx1) \<Rightarrow>
          (let currentTotalEscrow = GetTotalEscrowForDenom ctx1 (GetDenom coin)
           in case Add currentTotalEscrow coin of
                Fatal m \<Rightarrow> (Fatal m, ctx1)
              | Failure e \<Rightarrow> (Failure e, ctx1)
              | Success newTotalEscrow \<Rightarrow> SetTotalEscrowForDenom ctx1 newTotalEscrow))"

text \<open>
  \<^verbatim>\<open>UnescrowCoin\<close> (lines 374 to 389): send the coin from the escrow address to the
  receiver; an error of the bank is wrapped with the message that names a malicious
  counterparty or a bug; otherwise the coin is subtracted from the total escrow.
\<close>

definition unescrowMsg :: string where
  "unescrowMsg = ''unable to unescrow tokens, this may be caused by a malicious counterparty module or a bug: please open an issue on counterparty module''"

definition UnescrowCoin ::
  "'b Keeper \<Rightarrow> 'b Ctx \<Rightarrow> AccAddress \<Rightarrow> AccAddress \<Rightarrow> Coin \<Rightarrow> unit result \<times> 'b Ctx" where
  "UnescrowCoin k ctx escrowAddress receiver coin =
     (case bankCall (\<lambda>b. SendCoins (BankKeeper k) b escrowAddress receiver) ctx coin of
        (Fatal m, ctx1) \<Rightarrow> (Fatal m, ctx1)
      | (Failure err, ctx1) \<Rightarrow> (Failure (Wrap err unescrowMsg), ctx1)
      | (Success u, ctx1) \<Rightarrow>
          (let currentTotalEscrow = GetTotalEscrowForDenom ctx1 (GetDenom coin)
           in case Sub currentTotalEscrow coin of
                Fatal m \<Rightarrow> (Fatal m, ctx1)
              | Failure e \<Rightarrow> (Failure e, ctx1)
              | Success newTotalEscrow \<Rightarrow> SetTotalEscrowForDenom ctx1 newTotalEscrow))"

section \<open>Denominations and tokens\<close>

text \<open>
  Modelled from the spec: \<^verbatim>\<open>Denom.HasPrefix\<close> and \<^verbatim>\<open>Denom.Path\<close> belong to package
  \<^verbatim>\<open>types\<close> and are not in the sources. A denomination has the prefix (port, channel)
  iff the first hop of its trace is that pair (spec section 3); its path is the hops of
  its trace, then its base denomination, joined by a slash.
\<close>

definition HasPrefix :: "Denom \<Rightarrow> string \<Rightarrow> string \<Rightarrow> bool" where
  "HasPrefix d portID channelID =
     (case Trace d of
        [] \<Rightarrow> False
      | h # rest \<Rightarrow> PortId h = portID \<and> ChannelId h = channelID)"

definition Path :: "Denom \<Rightarrow> string" where
  "Path d = concat (map (\<lambda>h. PortId h @ ''/'' @ ChannelId h @ ''/'') (Trace d)) @ Base d"

text \<open>
  Modelled from the spec: \<^verbatim>\<open>Token.ToCoin\<close> belongs to package \<^verbatim>\<open>types\<close> and is not in
  the sources. A token is a denomination with an amount written as a decimal string
  (spec section 3); its coin has the ledger denomination of the token and the parsed
  amount, as lines 151 to 169 of \<^verbatim>\<open>OnRecvPacket\<close> build it in place.
\<close>

definition ToCoin :: "Types \<Rightarrow> Token \<Rightarrow> Coin result" where
  "ToCoin ty token =
     (case NewIntFromString ty (Amount token) of
        None \<Rightarrow> Failure (Wrap ErrInvalidAmount ''unable to parse transfer amount'')
      | Some transferAmount \<Rightarrow> NewCoin (IBCDenom ty (Denom token)) transferAmount)"

text \<open>
  Modelled from the spec: \<^verbatim>\<open>HasDenom\<close>, \<^verbatim>\<open>SetDenom\<close> and \<^verbatim>\<open>SetDenomMetadata\<close> are
  methods of the keeper, and \<^verbatim>\<open>EmitDenomEvent\<close> a function of package \<^verbatim>\<open>events\<close>, that
  are not in the sources. The registry maps the hash of a denomination to the
  denomination (spec section 6); the metadata of a denomination is kept by the bank; an
  event is handed to the event sink.
\<close>

definition HasDenom :: "'b Ctx \<Rightarrow> string \<Rightarrow> bool" where
  "HasDenom ctx hash = (denoms ctx hash \<noteq> None)"

definition SetDenom :: "'b Keeper \<Rightarrow> 'b Ctx \<Rightarrow> Denom \<Rightarrow> 'b Ctx" where
  "SetDenom k ctx denom = ctx\<lparr>denoms := (denoms ctx)(Hash (types k) denom \<mapsto> denom)\<rparr>"

definition SetDenomMetadata :: "'b Keeper \<Rightarrow> 'b Ctx \<Rightarrow> Denom \<Rightarrow> 'b Ctx" where
  "SetDenomMetadata k ctx denom =
     ctx\<lparr>bank := SetDenomMetaData (BankKeeper k) (bank ctx) denom\<rparr>"

definition EmitDenomEvent :: "'b Ctx \<Rightarrow> Token \<Rightarrow> 'b Ctx" where
  "EmitDenomEvent ctx token = ctx\<lparr>events := events ctx @ [token]\<rparr>"

section \<open>The send path\<close>

text \<open>
  The body of the loop of \<^verbatim>\<open>SendTransfer\<close> (lines 68 to 105) for one token: the coin of
  the token, the bank's send gate for that coin, then the burn of a returning voucher or
  the escrow of a token moving forward.
\<close>

definition burnPanic :: string where
  "burnPanic = ''cannot burn coins after a successful send to a module account''"

definition SendTransfer_token ::
  "'b Keeper \<Rightarrow> 'b Ctx \<Rightarrow> string \<Rightarrow> string \<Rightarrow> AccAddress \<Rightarrow> Token \<Rightarrow> unit result \<times> 'b Ctx" where
  "SendTransfer_token k ctx sourcePort sourceChannel sender token =
     (case ToCoin (types k) token of
        Fatal m \<Rightarrow> (Fatal m, ctx)
      | Failure err \<Rightarrow> (Failure err, ctx)
      | Success coin \<Rightarrow>
          (case IsSendEnabledCoins (BankKeeper k) (bank ctx) coin of
             Some err \<Rightarrow> (Failure (WrapError ErrSendDisabled err), ctx)
           | None \<Rightarrow>
               if HasPrefix (Denom token) sourcePort sourceChannel then
                 (case bankCall (\<lambda>b. SendCoinsFromAccountToModule (BankKeeper k) b sender ModuleName)
                         ctx coin of
                    (Fatal m, ctx1) \<Rightarrow> (Fatal m, ctx1)
                  | (Failure err, ctx1) \<Rightarrow> (Failure err, ctx1)
                  | (Success u, ctx1) \<Rightarrow>
                      (case bankCall (\<lambda>b. BurnCoins (BankKeeper k) b ModuleName) ctx1 coin of
                         (Fatal m, ctx2) \<Rightarrow> (Fatal m, ctx2)
                       | (Failure err, ctx2) \<Rightarrow> (Fatal burnPanic, ctx2)
                       | (Success u, ctx2) \<Rightarrow> (Success (), ctx2)))
               else
                 (let escrowAddress = GetEscrowAddress (types k) sourcePort sourceChannel
                  in EscrowCoin k ctx sender escrowAddress coin)))"

text \<open>
  The loop \<^verbatim>\<open>for _, token := range tokens\<close> (lines 67 to 108). Go evaluates the range
  expression once, before the first iteration: the loop runs over the elements the slice
  had then. The first list is what remains of that range; the second is the variable
  \<^verbatim>\<open>tokens\<close>, onto which line 107 appends every token that was processed. The loop
  returns the variable as it leaves it, besides the outcome and the context.
\<close>

fun SendTransfer_range ::
  "'b Keeper \<Rightarrow> string \<Rightarrow> string \<Rightarrow> AccAddress \<Rightarrow> Token list \<Rightarrow> Token list \<Rightarrow> 'b Ctx
     \<Rightarrow> unit result \<times> Token list \<times> 'b Ctx" where
  "SendTransfer_range k sourcePort sourceChannel sender [] tokens ctx =
     (Success (), tokens, ctx)"
| "SendTransfer_range k sourcePort sourceChannel sender (token # rest) tokens ctx =
     (case SendTransfer_token k ctx sourcePort sourceChannel sender token of
        (Fatal m, ctx1) \<Rightarrow> (Fatal m, tokens, ctx1)
      | (Failure err, ctx1) \<Rightarrow> (Failure err, tokens, ctx1)
      | (Success u, ctx1) \<Rightarrow>
          SendTransfer_range k sourcePort sourceChannel sender rest (tokens @ [token]) ctx1)"

text \<open>\<^verbatim>\<open>SendTransfer\<close> (lines 52 to 111): the two gates, then the loop.\<close>

definition SendTransfer ::
  "'b Keeper \<Rightarrow> 'b Ctx \<Rightarrow> string \<Rightarrow> string \<Rightarrow> Token list \<Rightarrow> AccAddress \<Rightarrow> unit result \<times> 'b Ctx" where
  "SendTransfer k ctx sourcePort sourceChannel tokens sender =
     (if \<not> SendEnabled (GetParams ctx) then (Failure ErrSendDisabled, ctx)
      else if IsBlockedAddr k sender then
        (Failure (Wrap ErrUnauthorized ''is not allowed to send funds''), ctx)
      else
        (case SendTransfer_range k sourcePort sourceChannel sender tokens tokens ctx of
           (r, tokens1, ctx1) \<Rightarrow> (r, ctx1)))"

section \<open>The receive path\<close>

text \<open>
  The body of the loop of \<^verbatim>\<open>OnRecvPacket\<close> (lines 150 to 214) for one token; it returns
  the coin that line 177 or line 213 appends to \<^verbatim>\<open>receivedCoins\<close>. When the
  denomination has the prefix its trace is not empty, so \<^verbatim>\<open>Trace[1:]\<close> is the tail.
\<close>

definition OnRecvPacket_token ::
  "'b Keeper \<Rightarrow> 'b Ctx \<Rightarrow> string \<Rightarrow> string \<Rightarrow> string \<Rightarrow> string \<Rightarrow> AccAddress \<Rightarrow> Token
     \<Rightarrow> Coin result \<times> 'b Ctx" where
  "OnRecvPacket_token k ctx sourcePort sourceChannel destPort destChannel receiver token =
     (case NewIntFromString (types k) (Amount token) of
        None \<Rightarrow> (Failure (Wrap ErrInvalidAmount ''unable to parse transfer amount''), ctx)
      | Some transferAmount \<Rightarrow>
          if HasPrefix (Denom token) sourcePort sourceChannel then
            (let denom = NewDenom (Base (Denom token)) (tl (Trace (Denom token)))
             in case NewCoin (IBCDenom (types k) denom) transferAmount of
                  Fatal m \<Rightarrow> (Fatal m, ctx)
                | Failure e \<Rightarrow> (Failure e, ctx)
                | Success coin \<Rightarrow>
                    (let escrowAddress = GetEscrowAddress (types k) destPort destChannel
                     in case UnescrowCoin k ctx escrowAddress receiver coin of
                          (Fatal m, ctx1) \<Rightarrow> (Fatal m, ctx1)
                        | (Failure err, ctx1) \<Rightarrow> (Failure err, ctx1)
                        | (Success u, ctx1) \<Rightarrow> (Success coin, ctx1)))
          else
            (let trace = [NewHop destPort destChannel];
                 denom = NewDenom (Base (Denom token)) (trace @ Trace (Denom token));
                 ctx1 = (if \<not> HasDenom ctx (Hash (types k) denom)
                         then SetDenom k ctx denom else ctx);
                 voucherDenom = IBCDenom (types k) denom;
                 ctx2 = (if \<not> HasDenomMetaData (BankKeeper k) (bank ctx1) voucherDenom
                         then SetDenomMetadata k ctx1 denom else ctx1);
                 ctx3 = EmitDenomEvent ctx2 (Token denom (Amount token))
             in case NewCoin voucherDenom transferAmount of
                  Fatal m \<Rightarrow> (Fatal m, ctx3)
                | Failure e \<Rightarrow> (Failure e, ctx3)
                | Success voucher \<Rightarrow>
                    (case bankCall (\<lambda>b. MintCoins (BankKeeper k) b ModuleName) ctx3 voucher of
                       (Fatal m, ctx4) \<Rightarrow> (Fatal m, ctx4)
                     | (Failure err, ctx4) \<Rightarrow>
                         (Failure (Wrap err ''failed to mint IBC tokens''), ctx4)
                     | (Success u, ctx4) \<Rightarrow>
                         (let moduleAddr = GetModuleAddress k ModuleName
                          in case bankCall (\<lambda>b. SendCoins (BankKeeper k) b moduleAddr receiver)
                                  ctx4 voucher of
                               (Fatal m, ctx5) \<Rightarrow> (Fatal m, ctx5)
                             | (Failure err, ctx5) \<Rightarrow>
                                 (Failure (Wrap err ''failed to send coins to receiver''), ctx5)
                             | (Success u, ctx5) \<Rightarrow> (Success voucher, ctx5)))))"

text \<open>
  The loop over \<^verbatim>\<open>data.Tokens\<close> (lines 149 to 215), with the coins received so far. An
  error returns nil coins with the error.
\<close>

fun OnRecvPacket_range ::
  "'b Keeper \<Rightarrow> string \<Rightarrow> string \<Rightarrow> string \<Rightarrow> string \<Rightarrow> AccAddress \<Rightarrow> Token list \<Rightarrow> Coin list
     \<Rightarrow> 'b Ctx \<Rightarrow> Coin list result \<times> 'b Ctx" where
  "OnRecvPacket_range k sourcePort sourceChannel destPort destChannel receiver []
       receivedCoins ctx = (Success receivedCoins, ctx)"
| "OnRecvPacket_range k sourcePort sourceChannel destPort destChannel receiver (token # rest)
       receivedCoins ctx =
     (case OnRecvPacket_token k ctx sourcePort sourceChannel destPort destChannel receiver token of
        (Fatal m, ctx1) \<Rightarrow> (Fatal m, ctx1)
      | (Failure err, ctx1) \<Rightarrow> (Failure err, ctx1)
      | (Success coin, ctx1) \<Rightarrow>
          OnRecvPacket_range k sourcePort sourceChannel destPort destChannel receiver rest
            (receivedCoins @ [coin]) ctx1)"

text \<open>
  \<^verbatim>\<open>OnRecvPacket\<close> (lines 122 to 219): validation of the packet data, the receive gate,
  the receiver and the blocked addresses, then the loop.
\<close>

definition OnRecvPacket ::
  "'b Keeper \<Rightarrow> 'b Ctx \<Rightarrow> FungibleTokenPacketDataV2 \<Rightarrow> string \<Rightarrow> string \<Rightarrow> string \<Rightarrow> string
     \<Rightarrow> Coin list result \<times> 'b Ctx" where
  "OnRecvPacket k ctx data sourcePort sourceChannel destPort destChannel =
     (case ValidateBasic (types k) data of
        Some err \<Rightarrow> (Failure (Wrap err ''error validating ICS-20 transfer packet data''), ctx)
      | None \<Rightarrow>
          if \<not> ReceiveEnabled (GetParams ctx) then (Failure ErrReceiveDisabled, ctx)
          else
            (case getReceiverFromPacketData k data of
               Inl err \<Rightarrow> (Failure err, ctx)
             | Inr receiver \<Rightarrow>
                 if IsBlockedAddr k receiver then
                   (Failure (Wrap ErrUnauthorized ''is not allowed to receive funds''), ctx)
                 else
                   OnRecvPacket_range k sourcePort sourceChannel destPort destChannel receiver
                     (Tokens data) [] ctx))"

section \<open>Acknowledgements, timeouts and refunds\<close>

text \<open>
  The body of the loop of \<^verbatim>\<open>refundPacketTokens\<close> (lines 328 to 350) for one token: a
  voucher that was burnt is minted again and sent to the sender, anything else is
  unescrowed.
\<close>

definition refundPanic :: string where
  "refundPanic = ''unable to send coins from module to account despite previously minting coins to module account''"

definition refundPacketTokens_token ::
  "'b Keeper \<Rightarrow> 'b Ctx \<Rightarrow> string \<Rightarrow> string \<Rightarrow> AccAddress \<Rightarrow> AccAddress \<Rightarrow> AccAddress \<Rightarrow> Token
     \<Rightarrow> unit result \<times> 'b Ctx" where
  "refundPacketTokens_token k ctx sourcePort sourceChannel sender escrowAddress
       moduleAccountAddr token =
     (case ToCoin (types k) token of
        Fatal m \<Rightarrow> (Fatal m, ctx)
      | Failure err \<Rightarrow> (Failure err, ctx)
      | Success coin \<Rightarrow>
          if HasPrefix (Denom token) sourcePort sourceChannel then
            (case bankCall (\<lambda>b. MintCoins (BankKeeper k) b ModuleName) ctx coin of
               (Fatal m, ctx1) \<Rightarrow> (Fatal m, ctx1)
             | (Failure err, ctx1) \<Rightarrow> (Failure err, ctx1)
             | (Success u, ctx1) \<Rightarrow>
                 (case bankCall (\<lambda>b. SendCoins (BankKeeper k) b moduleAccountAddr sender)
                         ctx1 coin of
                    (Fatal m, ctx2) \<Rightarrow> (Fatal m, ctx2)
                  | (Failure err, ctx2) \<Rightarrow> (Fatal refundPanic, ctx2)
                  | (Success u, ctx2) \<Rightarrow> (Success (), ctx2)))
          else UnescrowCoin k ctx escrowAddress sender coin)"

fun refundPacketTokens_range ::
  "'b Keeper \<Rightarrow> string \<Rightarrow> string \<Rightarrow> AccAddress \<Rightarrow> AccAddress \<Rightarrow> AccAddress \<Rightarrow> Token list
     \<Rightarrow> 'b Ctx \<Rightarrow> unit result \<times> 'b Ctx" where
  "refundPacketTokens_range k sourcePort sourceChannel sender escrowAddress moduleAccountAddr
       [] ctx = (Success (), ctx)"
| "refundPacketTokens_range k sourcePort sourceChannel sender escrowAddress moduleAccountAddr
       (token # rest) ctx =
     (case refundPacketTokens_token k ctx sourcePort sourceChannel sender escrowAddress
             moduleAccountAddr token of
        (Fatal m, ctx1) \<Rightarrow> (Fatal m, ctx1)
      | (Failure err, ctx1) \<Rightarrow> (Failure err, ctx1)
      | (Success u, ctx1) \<Rightarrow>
          refundPacketTokens_range k sourcePort sourceChannel sender escrowAddress
            moduleAccountAddr rest ctx1)"

text \<open>\<^verbatim>\<open>refundPacketTokens\<close> (lines 307 to 354).\<close>

definition refundPacketTokens ::
  "'b Keeper \<Rightarrow> 'b Ctx \<Rightarrow> string \<Rightarrow> string \<Rightarrow> FungibleTokenPacketDataV2 \<Rightarrow> unit result \<times> 'b Ctx" where
  "refundPacketTokens k ctx sourcePort sourceChannel data =
     (case AccAddressFromBech32 (types k) (Sender data) of
        Inl err \<Rightarrow> (Failure err, ctx)
      | Inr sender \<Rightarrow>
          if IsBlockedAddr k sender then
            (Failure (Wrap ErrUnauthorized ''is not allowed to receive funds''), ctx)
          else
            (let escrowAddress = GetEscrowAddress (types k) sourcePort sourceChannel;
                 moduleAccountAddr = GetModuleAddress k ModuleName
             in refundPacketTokens_range k sourcePort sourceChannel sender escrowAddress
                  moduleAccountAddr (Tokens data) ctx))"

text \<open>\<^verbatim>\<open>OnAcknowledgementPacket\<close> (lines 226 to 246).\<close>

definition OnAcknowledgementPacket ::
  "'b Keeper \<Rightarrow> 'b Ctx \<Rightarrow> string \<Rightarrow> string \<Rightarrow> FungibleTokenPacketDataV2 \<Rightarrow> Acknowledgement
     \<Rightarrow> unit result \<times> 'b Ctx" where
  "OnAcknowledgementPacket k ctx sourcePort sourceChannel data ack =
     (case ack of
        Acknowledgement_Result res \<Rightarrow> (Success (), ctx)
      | Acknowledgement_Error e \<Rightarrow>
          (case refundPacketTokens k ctx sourcePort sourceChannel data of
             (Fatal m, ctx1) \<Rightarrow> (Fatal m, ctx1)
           | (Failure err, ctx1) \<Rightarrow> (Failure err, ctx1)
           | (Success u, ctx1) \<Rightarrow> (Success (), ctx1))
      | Acknowledgement_Nil \<Rightarrow>
          (Failure (Wrap ErrInvalidType ''expected one of the acknowledgement types''), ctx))"

text \<open>\<^verbatim>\<open>OnTimeoutPacket\<close> (lines 283 to 290).\<close>

definition OnTimeoutPacket ::
  "'b Keeper \<Rightarrow> 'b Ctx \<Rightarrow> string \<Rightarrow> string \<Rightarrow> FungibleTokenPacketDataV2 \<Rightarrow> unit result \<times> 'b Ctx" where
  "OnTimeoutPacket k ctx sourcePort sourceChannel data =
     refundPacketTokens k ctx sourcePort sourceChannel data"

section \<open>Forwarded packets\<close>

text \<open>
  Modelled from the spec: \<^verbatim>\<open>acknowledgeForwardedPacket\<close> is a method of the keeper that
  is not in the sources. It hands the acknowledgement for the packet that was received
  and forwarded to the asynchronous acknowledgement interface of the relay layer (spec
  sections 4.5 and 6); that interface may refuse it.
\<close>

definition acknowledgeForwardedPacket ::
  "'b Keeper \<Rightarrow> 'b Ctx \<Rightarrow> Packet \<Rightarrow> Packet \<Rightarrow> Acknowledgement \<Rightarrow> unit result \<times> 'b Ctx" where
  "acknowledgeForwardedPacket k ctx forwardedPacket packet ack =
     (case WriteAcknowledgement k ctx forwardedPacket ack of
        Some err \<Rightarrow> (Failure err, ctx)
      | None \<Rightarrow> (Success (), ctx\<lparr>acks := acks ctx @ [(forwardedPacket, ack)]\<rparr>))"

text \<open>\<^verbatim>\<open>HandleForwardedPacketAcknowledgement\<close> (lines 253 to 280).\<close>

definition HandleForwardedPacketAcknowledgement ::
  "'b Keeper \<Rightarrow> 'b Ctx \<Rightarrow> Packet \<Rightarrow> Packet \<Rightarrow> FungibleTokenPacketDataV2 \<Rightarrow> Acknowledgement
     \<Rightarrow> unit result \<times> 'b Ctx" where
  "HandleForwardedPacketAcknowledgement k ctx packet forwardedPacket data ack =
     (case ack of
        Acknowledgement_Result res \<Rightarrow>
          acknowledgeForwardedPacket k ctx forwardedPacket packet (Acknowledgement_Result [1])
      | Acknowledgement_Error e \<Rightarrow>
          (case revertForwardedPacket k ctx forwardedPacket data of
             (Fatal m, ctx1) \<Rightarrow> (Fatal m, ctx1)
           | (Failure err, ctx1) \<Rightarrow> (Failure err, ctx1)
           | (Success u, ctx1) \<Rightarrow>
               acknowledgeForwardedPacket k ctx1 forwardedPacket packet
                 (NewForwardErrorAcknowledgement (types k) packet ack))
      | Acknowledgement_Nil \<Rightarrow>
          (Failure (Wrap ErrInvalidType ''expected one of the acknowledgement types''), ctx))"

text \<open>\<^verbatim>\<open>HandleForwardedPacketTimeout\<close> (lines 294 to 301).\<close>

definition HandleForwardedPacketTimeout ::
  "'b Keeper \<Rightarrow> 'b Ctx \<Rightarrow> Packet \<Rightarrow> Packet \<Rightarrow> FungibleTokenPacketDataV2 \<Rightarrow> unit result \<times> 'b Ctx" where
  "HandleForwardedPacketTimeout k ctx packet forwardedPacket data =
     (case revertForwardedPacket k ctx forwardedPacket data of
        (Fatal m, ctx1) \<Rightarrow> (Fatal m, ctx1)
      | (Failure err, ctx1) \<Rightarrow> (Failure err, ctx1)
      | (Success u, ctx1) \<Rightarrow>
          acknowledgeForwardedPacket k ctx1 forwardedPacket packet
            (NewForwardTimeoutAcknowledgement (types k) packet))"

section \<open>Packet data bytes\<close>

text \<open>
  \<^verbatim>\<open>createPacketDataBytesFromVersion\<close> (lines 421 to 455). It returns the pair of Go:
  the bytes (\<open>None\<close> is the nil slice) and the error (\<open>None\<close> is nil).
  \<open>packetDataV2\<close> is the packet data that lines 439 to 445 build.
\<close>

definition packetDataV2 ::
  "string \<Rightarrow> string \<Rightarrow> string \<Rightarrow> Token list \<Rightarrow> Hop list \<Rightarrow> FungibleTokenPacketDataV2" where
  "packetDataV2 sender receiver memo tokens hops =
     (let (forwardingPacketData, memo1) =
            (if length hops > 0 then (NewForwardingPacketData memo hops, [])
             else (NewForwardingPacketData [] [], memo))
      in NewFungibleTokenPacketDataV2 tokens sender receiver memo1 forwardingPacketData)"

definition createPacketDataBytesFromVersion ::
  "Types \<Rightarrow> string \<Rightarrow> string \<Rightarrow> string \<Rightarrow> string \<Rightarrow> Token list \<Rightarrow> Hop list
     \<Rightarrow> bytes option \<times> error option" where
  "createPacketDataBytesFromVersion ty appVersion sender receiver memo tokens hops =
     (if appVersion = V1 then
        (if length tokens \<noteq> 1 then
           (None, Some (Wrap ErrInvalidRequest ''cannot transfer multiple coins with ics20-1''))
         else
           (let token = tokens ! 0;
                packetData = NewFungibleTokenPacketData (Path (Denom token)) (Amount token)
                               sender receiver memo
            in case ValidateBasicV1 ty packetData of
                 Some err \<Rightarrow> (None, Some (Wrap err ''failed to validate ics20-1 packet data''))
               | None \<Rightarrow> (Some (GetBytesV1 ty packetData), None)))
      else if appVersion = V2 then
        (let packetData = packetDataV2 sender receiver memo tokens hops
         in case ValidateBasic ty packetData of
              Some err \<Rightarrow> (None, Some (Wrap err ''failed to validate ics20-2 packet data''))
            | None \<Rightarrow> (Some (GetBytes ty packetData), None))
      else (None, Some (Wrap ErrInvalidVersion ''app version must be one of the supported versions'')))"

section \<open>Sequences of escrow calls\<close>

text \<open>
  A call of \<^verbatim>\<open>EscrowCoin\<close> or of \<^verbatim>\<open>UnescrowCoin\<close>, with its arguments, and the run of a
  list of such calls one after the other, which stops at the first call that does not
  return nil. \<open>escrowed d ops\<close> and \<open>unescrowed d ops\<close> are the sums of the amounts that
  the calls of the list escrow and unescrow in the denomination \<open>d\<close>.
\<close>

datatype EscrowCall =
    CallEscrowCoin AccAddress AccAddress Coin
  | CallUnescrowCoin AccAddress AccAddress Coin

fun runCall :: "'b Keeper \<Rightarrow> 'b Ctx \<Rightarrow> EscrowCall \<Rightarrow> unit result \<times> 'b Ctx" where
  "runCall k ctx (CallEscrowCoin sender escrowAddress coin) =
     EscrowCoin k ctx sender escrowAddress coin"
| "runCall k ctx (CallUnescrowCoin escrowAddress receiver coin) =
     UnescrowCoin k ctx escrowAddress receiver coin"

fun runCalls :: "'b Keeper \<Rightarrow> 'b Ctx \<Rightarrow> EscrowCall list \<Rightarrow> unit result \<times> 'b Ctx" where
  "runCalls k ctx [] = (Success (), ctx)"
| "runCalls k ctx (c # cs) =
     (case runCall k ctx c of
        (Success u, ctx1) \<Rightarrow> runCalls k ctx1 cs
      | (Failure err, ctx1) \<Rightarrow> (Failure err, ctx1)
      | (Fatal m, ctx1) \<Rightarrow> (Fatal m, ctx1))"

fun escrowed :: "string \<Rightarrow> EscrowCall list \<Rightarrow> int" where
  "escrowed d [] = 0"
| "escrowed d (CallEscrowCoin sender escrowAddress coin # cs) =
     (if GetDenom coin = d then CoinAmount coin else 0) + escrowed d cs"
| "escrowed d (CallUnescrowCoin escrowAddress receiver coin # cs) = escrowed d cs"

fun unescrowed :: "string \<Rightarrow> EscrowCall list \<Rightarrow> int" where
  "unescrowed d [] = 0"
| "unescrowed d (CallEscrowCoin sender escrowAddress coin # cs) = unescrowed d cs"
| "unescrowed d (CallUnescrowCoin escrowAddress receiver coin # cs) =
     (if GetDenom coin = d then CoinAmount coin else 0) + unescrowed d cs"

section \<open>Processing a list in order\<close>

text \<open>
  What it means to process each element of a list exactly once and in the order of the
  list: \<open>f\<close> runs on the first element, then on the second in the context the first
  run left, and so on, up to the first run that does not return nil.
\<close>

fun processEach ::
  "('s \<Rightarrow> 'a \<Rightarrow> unit result \<times> 's) \<Rightarrow> 's \<Rightarrow> 'a list \<Rightarrow> unit result \<times> 's" where
  "processEach f s [] = (Success (), s)"
| "processEach f s (x # xs) =
     (case f s x of
        (Success u, s1) \<Rightarrow> processEach f s1 xs
      | (Failure err, s1) \<Rightarrow> (Failure err, s1)
      | (Fatal m, s1) \<Rightarrow> (Fatal m, s1))"

text \<open>
  The same for a function that returns a value for each element: the values of the
  elements are collected in the order of the list, and the first run that does not return
  nil ends the processing with its outcome and no values.
\<close>

fun collectEach ::
  "('s \<Rightarrow> 'a \<Rightarrow> 'c result \<times> 's) \<Rightarrow> 's \<Rightarrow> 'a list \<Rightarrow> 'c list result \<times> 's" where
  "collectEach f s [] = (Success [], s)"
| "collectEach f s (x # xs) =
     (case f s x of
        (Success c, s1) \<Rightarrow>
          (case collectEach f s1 xs of
             (Success cs, s2) \<Rightarrow> (Success (c # cs), s2)
           | (Failure err, s2) \<Rightarrow> (Failure err, s2)
           | (Fatal m, s2) \<Rightarrow> (Fatal m, s2))
      | (Failure err, s1) \<Rightarrow> (Failure err, s1)
      | (Fatal m, s1) \<Rightarrow> (Fatal m, s1))"

section \<open>A concrete keeper\<close>

text \<open>
  One instance of the collaborators, to run the keeper on concrete inputs. Its bank keeps
  a balance per address and denomination, and refuses to move or to burn more than the
  balance (spec section 6); its denominations are identified by their paths; its amounts
  are written in decimal digits; its validation of packet data rejects a token whose
  amount is not a positive integer (spec section 3).
\<close>

type_synonym Balances = "AccAddress \<times> string \<Rightarrow> int"

fun moveFunds :: "Balances \<Rightarrow> AccAddress \<Rightarrow> AccAddress \<Rightarrow> Coin list \<Rightarrow> error option \<times> Balances" where
  "moveFunds b from to [] = (None, b)"
| "moveFunds b from to (c # cs) =
     (if b (from, GetDenom c) < CoinAmount c then (Some (ErrOther ''insufficient funds''), b)
      else
        (let b1 = b((from, GetDenom c) := b (from, GetDenom c) - CoinAmount c);
             b2 = b1((to, GetDenom c) := b1 (to, GetDenom c) + CoinAmount c)
         in moveFunds b2 from to cs))"

fun mintFunds :: "Balances \<Rightarrow> AccAddress \<Rightarrow> Coin list \<Rightarrow> error option \<times> Balances" where
  "mintFunds b to [] = (None, b)"
| "mintFunds b to (c # cs) =
     mintFunds (b((to, GetDenom c) := b (to, GetDenom c) + CoinAmount c)) to cs"

fun burnFunds :: "Balances \<Rightarrow> AccAddress \<Rightarrow> Coin list \<Rightarrow> error option \<times> Balances" where
  "burnFunds b from [] = (None, b)"
| "burnFunds b from (c # cs) =
     (if b (from, GetDenom c) < CoinAmount c then (Some (ErrOther ''insufficient funds''), b)
      else burnFunds (b((from, GetDenom c) := b (from, GetDenom c) - CoinAmount c)) from cs)"

definition moduleAddress :: "string \<Rightarrow> AccAddress" where
  "moduleAddress name = ''module-'' @ name"

definition demoBank :: "Balances BankKeeper" where
  "demoBank =
     \<lparr>SendCoins = moveFunds,
      SendCoinsFromAccountToModule = (\<lambda>b sender name coins. moveFunds b sender (moduleAddress name) coins),
      BurnCoins = (\<lambda>b name coins. burnFunds b (moduleAddress name) coins),
      MintCoins = (\<lambda>b name coins. mintFunds b (moduleAddress name) coins),
      IsSendEnabledCoins = (\<lambda>b coin. None),
      HasDenomMetaData = (\<lambda>b denom. False),
      SetDenomMetaData = (\<lambda>b denom. b)\<rparr>"

definition digit :: "char \<Rightarrow> nat option" where
  "digit = map_of [(CHR ''0'', 0), (CHR ''1'', 1), (CHR ''2'', 2), (CHR ''3'', 3), (CHR ''4'', 4),
                   (CHR ''5'', 5), (CHR ''6'', 6), (CHR ''7'', 7), (CHR ''8'', 8), (CHR ''9'', 9)]"

fun decimal :: "nat \<Rightarrow> string \<Rightarrow> nat option" where
  "decimal n [] = Some n"
| "decimal n (c # cs) =
     (case digit c of None \<Rightarrow> None | Some d \<Rightarrow> decimal (10 * n + d) cs)"

definition parseAmount :: "string \<Rightarrow> int option" where
  "parseAmount s = (if s = [] then None else map_option int (decimal 0 s))"

definition positiveAmount :: "Token \<Rightarrow> bool" where
  "positiveAmount token =
     (case parseAmount (Amount token) of None \<Rightarrow> False | Some n \<Rightarrow> 0 < n)"

definition parseAddress :: "string \<Rightarrow> error + AccAddress" where
  "parseAddress s = (if s = [] then Inl (ErrOther ''empty address'') else Inr s)"

definition demoTypes :: Types where
  "demoTypes =
     \<lparr>GetEscrowAddress = (\<lambda>port channel. ''escrow-'' @ port @ ''-'' @ channel),
      NewIntFromString = parseAmount,
      IBCDenom = Path,
      Hash = Path,
      AccAddressFromBech32 = parseAddress,
      ValidateBasic = (\<lambda>data. if list_all positiveAmount (Tokens data) then None
                               else Some ErrInvalidAmount),
      GetBytes = (\<lambda>data. map of_char (Memo data)),
      ValidateBasicV1 = (\<lambda>data. None),
      GetBytesV1 = (\<lambda>data. []),
      NewForwardErrorAcknowledgement = (\<lambda>packet ack. Acknowledgement_Error ''forwarding packet failed''),
      NewForwardTimeoutAcknowledgement = (\<lambda>packet. Acknowledgement_Error ''forwarding packet timed out'')\<rparr>"

text \<open>
  The keeper of the instance blocks one address; its revert of a forwarded packet does
  nothing and returns nil, or fails when \<open>revertFails\<close> is set.
\<close>

definition demoKeeper :: "bool \<Rightarrow> Balances Keeper" where
  "demoKeeper revertFails =
     \<lparr>BankKeeper = demoBank,
      types = demoTypes,
      GetModuleAddress = moduleAddress,
      IsBlockedAddr = (\<lambda>addr. addr = ''blocked''),
      getReceiverFromPacketData = (\<lambda>data. parseAddress (Receiver data)),
      revertForwardedPacket =
        (\<lambda>ctx packet data. if revertFails then (Failure (ErrOther ''revert failed''), ctx)
                            else (Success (), ctx)),
      WriteAcknowledgement = (\<lambda>ctx packet ack. None)\<rparr>"

text \<open>
  A context in which alice holds 10 uatom and 7 vouchers of the uatom that came in over
  the channel channel-0 of the port transfer, nothing is in escrow and both gates are open.
\<close>

definition demoCtx :: "Balances Ctx" where
  "demoCtx =
     \<lparr>bank = ((\<lambda>x. 0)((''alice'', ''uatom'') := 10))
               ((''alice'', ''transfer/channel-0/uatom'') := 7),
      GetParams = \<lparr>SendEnabled = True, ReceiveEnabled = True\<rparr>,
      totalEscrow = (\<lambda>d. 0),
      denoms = (\<lambda>h. None),
      events = [],
      acks = []\<rparr>"

text \<open>
  The context above with 5 uatom held at the escrow address of the channel channel-0 of
  the port transfer, and with the given escrow total of uatom: 5 when the funds came in
  through EscrowCoin, less when some of them reached the address in another way.
\<close>

definition escrowCtx :: "int \<Rightarrow> Balances Ctx" where
  "escrowCtx recorded =
     demoCtx\<lparr>bank := (bank demoCtx)((''escrow-transfer-channel-0'', ''uatom'') := 5),
             totalEscrow := (\<lambda>d. 0)(''uatom'' := recorded)\<rparr>"

section \<open>The escrow total\<close>

lemma bankCall_totalEscrow:
  "bankCall f ctx coin = (r, ctx1) \<Longrightarrow> totalEscrow ctx1 = totalEscrow ctx"
  by (auto simp: bankCall_def split: result.splits option.splits prod.splits)

lemma bankCall_Success:
  "bankCall f ctx coin = (Success u, ctx1) \<Longrightarrow> 0 \<le> CoinAmount coin"
  by (auto simp: bankCall_def NewCoins_def split: result.splits option.splits prod.splits if_splits)

lemma EscrowCoin_total:
  assumes "EscrowCoin k ctx sender escrowAddress coin = (r, ctx1)"
  shows "(r = Success () \<and> 0 \<le> CoinAmount coin \<and>
          totalEscrow ctx1 = (totalEscrow ctx)
            (GetDenom coin := totalEscrow ctx (GetDenom coin) + CoinAmount coin))
         \<or> (r \<noteq> Success () \<and> totalEscrow ctx1 = totalEscrow ctx)"
  using assms
  by (auto simp: EscrowCoin_def Add_def SetTotalEscrowForDenom_def GetTotalEscrowForDenom_def Let_def
      dest: bankCall_totalEscrow bankCall_Success
      split: result.splits prod.splits if_splits)

lemma UnescrowCoin_total:
  assumes "UnescrowCoin k ctx escrowAddress receiver coin = (r, ctx1)"
  shows "(r = Success () \<and> 0 \<le> CoinAmount coin \<and>
          CoinAmount coin \<le> totalEscrow ctx (GetDenom coin) \<and>
          totalEscrow ctx1 = (totalEscrow ctx)
            (GetDenom coin := totalEscrow ctx (GetDenom coin) - CoinAmount coin))
         \<or> (r \<noteq> Success () \<and> totalEscrow ctx1 = totalEscrow ctx)"
  using assms
  by (auto simp: UnescrowCoin_def Sub_def SetTotalEscrowForDenom_def GetTotalEscrowForDenom_def Let_def
      dest: bankCall_totalEscrow bankCall_Success
      split: result.splits prod.splits if_splits)

lemma runCall_nonneg:
  assumes "\<forall>d. 0 \<le> totalEscrow ctx d" and "runCall k ctx c = (r, ctx1)"
  shows "\<forall>d. 0 \<le> totalEscrow ctx1 d"
proof (cases c)
  case (CallEscrowCoin sender escrowAddress coin)
  with assms(2) have "EscrowCoin k ctx sender escrowAddress coin = (r, ctx1)" by simp
  from EscrowCoin_total[OF this] assms(1) show ?thesis by auto
next
  case (CallUnescrowCoin escrowAddress receiver coin)
  with assms(2) have "UnescrowCoin k ctx escrowAddress receiver coin = (r, ctx1)" by simp
  from UnescrowCoin_total[OF this] assms(1) show ?thesis by auto
qed

lemma runCall_sum:
  assumes "runCall k ctx c = (Success u, ctx1)"
  shows "totalEscrow ctx1 d = totalEscrow ctx d + escrowed d [c] - unescrowed d [c]"
proof (cases c)
  case (CallEscrowCoin sender escrowAddress coin)
  with assms have "EscrowCoin k ctx sender escrowAddress coin = (Success u, ctx1)" by simp
  from EscrowCoin_total[OF this] CallEscrowCoin show ?thesis by auto
next
  case (CallUnescrowCoin escrowAddress receiver coin)
  with assms have "UnescrowCoin k ctx escrowAddress receiver coin = (Success u, ctx1)" by simp
  from UnescrowCoin_total[OF this] CallUnescrowCoin show ?thesis by auto
qed

lemma escrowed_Cons: "escrowed d (c # cs) = escrowed d [c] + escrowed d cs"
  by (cases c) auto

lemma unescrowed_Cons: "unescrowed d (c # cs) = unescrowed d [c] + unescrowed d cs"
  by (cases c) auto

lemma runCalls_nonneg:
  "\<forall>d. 0 \<le> totalEscrow ctx d \<Longrightarrow> runCalls k ctx cs = (r, ctx1) \<Longrightarrow>
   \<forall>d. 0 \<le> totalEscrow ctx1 d"
proof (induction cs arbitrary: ctx)
  case Nil
  then show ?case by simp
next
  case (Cons c cs)
  obtain r0 ctx0 where step: "runCall k ctx c = (r0, ctx0)"
    by (cases "runCall k ctx c")
  have inv0: "\<forall>d. 0 \<le> totalEscrow ctx0 d"
    using runCall_nonneg[OF Cons.prems(1) step] .
  show ?case
  proof (cases r0)
    case (Success u)
    with step Cons.prems(2) have "runCalls k ctx0 cs = (r, ctx1)" by simp
    from Cons.IH[OF inv0 this] show ?thesis .
  next
    case (Failure e)
    with step Cons.prems(2) have "ctx1 = ctx0" by simp
    with inv0 show ?thesis by simp
  next
    case (Fatal m)
    with step Cons.prems(2) have "ctx1 = ctx0" by simp
    with inv0 show ?thesis by simp
  qed
qed

lemma runCalls_sum:
  "runCalls k ctx cs = (Success u, ctx1) \<Longrightarrow>
   totalEscrow ctx1 d = totalEscrow ctx d + escrowed d cs - unescrowed d cs"
proof (induction cs arbitrary: ctx)
  case Nil
  then show ?case by simp
next
  case (Cons c cs)
  obtain r0 ctx0 where step: "runCall k ctx c = (r0, ctx0)"
    by (cases "runCall k ctx c")
  with Cons.prems have r0: "r0 = Success ()"
    and rest: "runCalls k ctx0 cs = (Success u, ctx1)"
    by (auto split: result.splits)
  from step r0 have "runCall k ctx c = (Success (), ctx0)" by simp
  from runCall_sum[OF this, of d] Cons.IH[OF rest]
  show ?case using escrowed_Cons[of d c cs] unescrowed_Cons[of d c cs] by simp
qed

lemmas demo_defs =
  demoKeeper_def demoCtx_def demoBank_def demoTypes_def moduleAddress_def
  parseAmount_def parseAddress_def positiveAmount_def digit_def

lemmas escrow_defs =
  EscrowCoin_def UnescrowCoin_def bankCall_def NewCoins_def NewCoin_def Add_def Sub_def
  GetTotalEscrowForDenom_def SetTotalEscrowForDenom_def

text \<open>
  Claim C1. The escrow total of every denomination is at least 0 at all times: if it is
  so before a run of EscrowCoin and UnescrowCoin calls, it is so in the context the run
  leaves, whether the run ends in nil, in an error or in a panic. When every call of the
  run returns nil, the total of a denomination after the run is its total before the run,
  plus the sum of the amounts escrowed in that denomination, minus the sum of the amounts
  unescrowed in it.
\<close>

theorem escrow_total_conservation:
  assumes "\<forall>d. 0 \<le> totalEscrow ctx d"
  shows "(\<forall>d. 0 \<le> totalEscrow (snd (runCalls k ctx cs)) d) \<and>
         (fst (runCalls k ctx cs) = Success () \<longrightarrow>
            totalEscrow (snd (runCalls k ctx cs)) d =
              totalEscrow ctx d + escrowed d cs - unescrowed d cs)"
proof -
  obtain r ctx1 where run: "runCalls k ctx cs = (r, ctx1)"
    by (cases "runCalls k ctx cs")
  have "\<forall>d. 0 \<le> totalEscrow ctx1 d"
    using runCalls_nonneg[OF assms run] .
  moreover have "r = Success () \<longrightarrow>
      totalEscrow ctx1 d = totalEscrow ctx d + escrowed d cs - unescrowed d cs"
    using runCalls_sum[of k ctx cs "()" ctx1 d] run by simp
  ultimately show ?thesis using run by simp
qed

theorem escrow_total_conservation_witness:
  "(\<forall>d. 0 \<le> totalEscrow demoCtx d) \<and>
   fst (runCalls (demoKeeper False) demoCtx
          [CallEscrowCoin ''alice'' ''esc'' (Coin ''uatom'' 5),
           CallUnescrowCoin ''esc'' ''bob'' (Coin ''uatom'' 3)]) = Success () \<and>
   totalEscrow (snd (runCalls (demoKeeper False) demoCtx
          [CallEscrowCoin ''alice'' ''esc'' (Coin ''uatom'' 5),
           CallUnescrowCoin ''esc'' ''bob'' (Coin ''uatom'' 3)])) ''uatom'' = 2"
proof -
  let ?cs = "[CallEscrowCoin ''alice'' ''esc'' (Coin ''uatom'' 5),
              CallUnescrowCoin ''esc'' ''bob'' (Coin ''uatom'' 3)]"
  have inv: "\<forall>d. 0 \<le> totalEscrow demoCtx d"
    by (simp add: demoCtx_def)
  have ok: "fst (runCalls (demoKeeper False) demoCtx ?cs) = Success ()"
    by (simp add: demo_defs escrow_defs)
  from escrow_total_conservation[OF inv, of "demoKeeper False" ?cs "''uatom''"] ok
  have "totalEscrow (snd (runCalls (demoKeeper False) demoCtx ?cs)) ''uatom'' =
          totalEscrow demoCtx ''uatom'' + escrowed ''uatom'' ?cs - unescrowed ''uatom'' ?cs"
    by blast
  then have "totalEscrow (snd (runCalls (demoKeeper False) demoCtx ?cs)) ''uatom'' = 2"
    by (simp add: demoCtx_def)
  with inv ok show ?thesis by blast
qed

lemma UnescrowCoin_move_ok:
  assumes "NewCoins coin = Success coins"
    and "SendCoins (BankKeeper k) (bank ctx) escrowAddress receiver coins = (None, b)"
  shows "UnescrowCoin k ctx escrowAddress receiver coin =
           (if CoinAmount coin \<le> totalEscrow ctx (GetDenom coin)
            then (Success (),
                  ctx\<lparr>bank := b,
                      totalEscrow := (totalEscrow ctx)
                        (GetDenom coin := totalEscrow ctx (GetDenom coin) - CoinAmount coin)\<rparr>)
            else (Fatal ''negative coin amount'', ctx\<lparr>bank := b\<rparr>))"
  using assms
  by (auto simp: escrow_defs Let_def split: if_splits)

lemma UnescrowCoin_nil_iff:
  "(fst (UnescrowCoin k ctx escrowAddress receiver coin) = Success ()) =
   (\<exists>coins. NewCoins coin = Success coins \<and>
      fst (SendCoins (BankKeeper k) (bank ctx) escrowAddress receiver coins) = None \<and>
      CoinAmount coin \<le> totalEscrow ctx (GetDenom coin))"
  by (auto simp: escrow_defs Let_def split: result.splits prod.splits option.splits if_splits)

text \<open>
  Claim C4, amended. In a context whose escrow total for the coin's denomination is not
  negative, EscrowCoin returns nil exactly when the move of the funds from the sender to
  the escrow address succeeds, and then the context it leaves has the bank as the move
  left it and the amount of the coin added to the escrow total of the coin's denomination;
  when the move fails, EscrowCoin returns the error of the bank as it is and the escrow
  total is the one before the call. UnescrowCoin returns nil exactly when the move of the
  funds from the escrow address to the receiver succeeds and the amount of the coin is at
  most the escrow total of its denomination, and then the context it leaves has the bank
  as the move left it and the amount subtracted from that total; when the move succeeds
  and the amount is more than the total, it panics and the escrow total is the one before
  the call; when the move fails, it returns the error of the bank wrapped under its own
  message and the escrow total is the one before the call.
\<close>

theorem escrow_unescrow_follow_funds_move:
  assumes "0 \<le> totalEscrow ctx (GetDenom coin)"
  shows
    "((fst (EscrowCoin k ctx sender escrowAddress coin) = Success ()) =
        (\<exists>coins. NewCoins coin = Success coins \<and>
           fst (SendCoins (BankKeeper k) (bank ctx) sender escrowAddress coins) = None)) \<and>
     (\<forall>coins b. NewCoins coin = Success coins \<and>
         SendCoins (BankKeeper k) (bank ctx) sender escrowAddress coins = (None, b) \<longrightarrow>
         EscrowCoin k ctx sender escrowAddress coin =
           (Success (),
            ctx\<lparr>bank := b,
                totalEscrow := (totalEscrow ctx)
                  (GetDenom coin := totalEscrow ctx (GetDenom coin) + CoinAmount coin)\<rparr>)) \<and>
     (\<forall>coins b err. NewCoins coin = Success coins \<and>
         SendCoins (BankKeeper k) (bank ctx) sender escrowAddress coins = (Some err, b) \<longrightarrow>
         EscrowCoin k ctx sender escrowAddress coin = (Failure err, ctx\<lparr>bank := b\<rparr>)) \<and>
     ((fst (UnescrowCoin k ctx escrowAddress receiver coin) = Success ()) =
        (\<exists>coins. NewCoins coin = Success coins \<and>
           fst (SendCoins (BankKeeper k) (bank ctx) escrowAddress receiver coins) = None \<and>
           CoinAmount coin \<le> totalEscrow ctx (GetDenom coin))) \<and>
     (\<forall>coins b. NewCoins coin = Success coins \<and>
         SendCoins (BankKeeper k) (bank ctx) escrowAddress receiver coins = (None, b) \<and>
         CoinAmount coin \<le> totalEscrow ctx (GetDenom coin) \<longrightarrow>
         UnescrowCoin k ctx escrowAddress receiver coin =
           (Success (),
            ctx\<lparr>bank := b,
                totalEscrow := (totalEscrow ctx)
                  (GetDenom coin := totalEscrow ctx (GetDenom coin) - CoinAmount coin)\<rparr>)) \<and>
     (\<forall>coins b. NewCoins coin = Success coins \<and>
         SendCoins (BankKeeper k) (bank ctx) escrowAddress receiver coins = (None, b) \<and>
         totalEscrow ctx (GetDenom coin) < CoinAmount coin \<longrightarrow>
         UnescrowCoin k ctx escrowAddress receiver coin =
           (Fatal ''negative coin amount'', ctx\<lparr>bank := b\<rparr>)) \<and>
     (fst (UnescrowCoin k ctx escrowAddress receiver coin) = Success () \<longrightarrow>
         totalEscrow (snd (UnescrowCoin k ctx escrowAddress receiver coin)) =
           (totalEscrow ctx)
             (GetDenom coin := totalEscrow ctx (GetDenom coin) - CoinAmount coin)) \<and>
     (\<forall>coins b err. NewCoins coin = Success coins \<and>
         SendCoins (BankKeeper k) (bank ctx) escrowAddress receiver coins = (Some err, b) \<longrightarrow>
         UnescrowCoin k ctx escrowAddress receiver coin =
           (Failure (Wrap err unescrowMsg), ctx\<lparr>bank := b\<rparr>))"
proof (intro conjI allI impI)
  show "(fst (EscrowCoin k ctx sender escrowAddress coin) = Success ()) =
        (\<exists>coins. NewCoins coin = Success coins \<and>
           fst (SendCoins (BankKeeper k) (bank ctx) sender escrowAddress coins) = None)"
    using assms
    by (auto simp: escrow_defs Let_def split: result.splits prod.splits option.splits if_splits)
next
  fix coins b
  assume "NewCoins coin = Success coins \<and>
          SendCoins (BankKeeper k) (bank ctx) sender escrowAddress coins = (None, b)"
  then show "EscrowCoin k ctx sender escrowAddress coin =
           (Success (),
            ctx\<lparr>bank := b,
                totalEscrow := (totalEscrow ctx)
                  (GetDenom coin := totalEscrow ctx (GetDenom coin) + CoinAmount coin)\<rparr>)"
    using assms
    by (auto simp: escrow_defs Let_def split: if_splits)
next
  fix coins b err
  assume "NewCoins coin = Success coins \<and>
          SendCoins (BankKeeper k) (bank ctx) sender escrowAddress coins = (Some err, b)"
  then show "EscrowCoin k ctx sender escrowAddress coin = (Failure err, ctx\<lparr>bank := b\<rparr>)"
    by (auto simp: EscrowCoin_def bankCall_def)
next
  show "(fst (UnescrowCoin k ctx escrowAddress receiver coin) = Success ()) =
        (\<exists>coins. NewCoins coin = Success coins \<and>
           fst (SendCoins (BankKeeper k) (bank ctx) escrowAddress receiver coins) = None \<and>
           CoinAmount coin \<le> totalEscrow ctx (GetDenom coin))"
    by (rule UnescrowCoin_nil_iff)
next
  fix coins b
  assume "NewCoins coin = Success coins \<and>
          SendCoins (BankKeeper k) (bank ctx) escrowAddress receiver coins = (None, b) \<and>
          CoinAmount coin \<le> totalEscrow ctx (GetDenom coin)"
  then show "UnescrowCoin k ctx escrowAddress receiver coin =
           (Success (),
            ctx\<lparr>bank := b,
                totalEscrow := (totalEscrow ctx)
                  (GetDenom coin := totalEscrow ctx (GetDenom coin) - CoinAmount coin)\<rparr>)"
    using UnescrowCoin_move_ok[of coin coins k ctx escrowAddress receiver b] by simp
next
  fix coins b
  assume "NewCoins coin = Success coins \<and>
          SendCoins (BankKeeper k) (bank ctx) escrowAddress receiver coins = (None, b) \<and>
          totalEscrow ctx (GetDenom coin) < CoinAmount coin"
  then show "UnescrowCoin k ctx escrowAddress receiver coin =
           (Fatal ''negative coin amount'', ctx\<lparr>bank := b\<rparr>)"
    using UnescrowCoin_move_ok[of coin coins k ctx escrowAddress receiver b] by simp
next
  assume ok: "fst (UnescrowCoin k ctx escrowAddress receiver coin) = Success ()"
  obtain r ctx1 where run: "UnescrowCoin k ctx escrowAddress receiver coin = (r, ctx1)"
    by (cases "UnescrowCoin k ctx escrowAddress receiver coin")
  from UnescrowCoin_total[OF run] ok run
  show "totalEscrow (snd (UnescrowCoin k ctx escrowAddress receiver coin)) =
           (totalEscrow ctx)
             (GetDenom coin := totalEscrow ctx (GetDenom coin) - CoinAmount coin)"
    by auto
next
  fix coins b err
  assume "NewCoins coin = Success coins \<and>
          SendCoins (BankKeeper k) (bank ctx) escrowAddress receiver coins = (Some err, b)"
  then show "UnescrowCoin k ctx escrowAddress receiver coin =
           (Failure (Wrap err unescrowMsg), ctx\<lparr>bank := b\<rparr>)"
    by (auto simp: UnescrowCoin_def bankCall_def)
qed

theorem escrow_unescrow_follow_funds_move_witness:
  "0 \<le> totalEscrow demoCtx (GetDenom (Coin ''uatom'' 5)) \<and>
   NewCoins (Coin ''uatom'' 5) = Success [Coin ''uatom'' 5] \<and>
   fst (SendCoins (BankKeeper (demoKeeper False)) (bank demoCtx) ''alice'' ''esc''
          [Coin ''uatom'' 5]) = None \<and>
   fst (EscrowCoin (demoKeeper False) demoCtx ''alice'' ''esc'' (Coin ''uatom'' 5)) = Success () \<and>
   SendCoins (BankKeeper (demoKeeper False)) (bank demoCtx) ''esc'' ''bob'' [Coin ''uatom'' 5] =
     (Some (ErrOther ''insufficient funds''), bank demoCtx) \<and>
   UnescrowCoin (demoKeeper False) demoCtx ''esc'' ''bob'' (Coin ''uatom'' 5) =
     (Failure (Wrap (ErrOther ''insufficient funds'') unescrowMsg), demoCtx) \<and>
   0 \<le> totalEscrow (escrowCtx 5) (GetDenom (Coin ''uatom'' 3)) \<and>
   NewCoins (Coin ''uatom'' 3) = Success [Coin ''uatom'' 3] \<and>
   fst (SendCoins (BankKeeper (demoKeeper False)) (bank (escrowCtx 5))
          ''escrow-transfer-channel-0'' ''bob'' [Coin ''uatom'' 3]) = None \<and>
   CoinAmount (Coin ''uatom'' 3) \<le> totalEscrow (escrowCtx 5) (GetDenom (Coin ''uatom'' 3)) \<and>
   fst (UnescrowCoin (demoKeeper False) (escrowCtx 5) ''escrow-transfer-channel-0'' ''bob''
          (Coin ''uatom'' 3)) = Success () \<and>
   totalEscrow (snd (UnescrowCoin (demoKeeper False) (escrowCtx 5)
          ''escrow-transfer-channel-0'' ''bob'' (Coin ''uatom'' 3))) ''uatom'' = 2 \<and>
   bank (snd (UnescrowCoin (demoKeeper False) (escrowCtx 5)
          ''escrow-transfer-channel-0'' ''bob'' (Coin ''uatom'' 3))) (''bob'', ''uatom'') = 3 \<and>
   bank (snd (UnescrowCoin (demoKeeper False) (escrowCtx 5)
          ''escrow-transfer-channel-0'' ''bob'' (Coin ''uatom'' 3)))
     (''escrow-transfer-channel-0'', ''uatom'') = 2"
proof -
  have inv: "0 \<le> totalEscrow demoCtx (GetDenom (Coin ''uatom'' 5))"
    by (simp add: demoCtx_def)
  have coins: "NewCoins (Coin ''uatom'' 5) = Success [Coin ''uatom'' 5]"
    by (simp add: NewCoins_def)
  have move: "fst (SendCoins (BankKeeper (demoKeeper False)) (bank demoCtx) ''alice'' ''esc''
          [Coin ''uatom'' 5]) = None"
    by (simp add: demo_defs)
  have fails: "SendCoins (BankKeeper (demoKeeper False)) (bank demoCtx) ''esc'' ''bob''
          [Coin ''uatom'' 5] = (Some (ErrOther ''insufficient funds''), bank demoCtx)"
    by (simp add: demo_defs)
  note inst = escrow_unescrow_follow_funds_move[OF inv, of "demoKeeper False" "''alice''" "''esc''" "''bob''"]
  from inst coins move
  have esc: "fst (EscrowCoin (demoKeeper False) demoCtx ''alice'' ''esc'' (Coin ''uatom'' 5)) = Success ()"
    by blast
  from inst coins fails
  have "UnescrowCoin (demoKeeper False) demoCtx ''esc'' ''bob'' (Coin ''uatom'' 5) =
     (Failure (Wrap (ErrOther ''insufficient funds'') unescrowMsg), demoCtx\<lparr>bank := bank demoCtx\<rparr>)"
    by blast
  then have unesc: "UnescrowCoin (demoKeeper False) demoCtx ''esc'' ''bob'' (Coin ''uatom'' 5) =
     (Failure (Wrap (ErrOther ''insufficient funds'') unescrowMsg), demoCtx)"
    by simp
  let ?ctx = "escrowCtx 5"
  let ?coin = "Coin ''uatom'' 3"
  let ?b = "snd (SendCoins (BankKeeper (demoKeeper False)) (bank ?ctx)
                   ''escrow-transfer-channel-0'' ''bob'' [?coin])"
  have inv2: "0 \<le> totalEscrow ?ctx (GetDenom ?coin)"
    by (simp add: escrowCtx_def)
  have coins2: "NewCoins ?coin = Success [?coin]"
    by (simp add: NewCoins_def)
  have move2: "fst (SendCoins (BankKeeper (demoKeeper False)) (bank ?ctx)
          ''escrow-transfer-channel-0'' ''bob'' [?coin]) = None"
    by (simp add: escrowCtx_def demo_defs)
  then have move2b: "SendCoins (BankKeeper (demoKeeper False)) (bank ?ctx)
          ''escrow-transfer-channel-0'' ''bob'' [?coin] = (None, ?b)"
    by (simp add: prod_eq_iff)
  have cover: "CoinAmount ?coin \<le> totalEscrow ?ctx (GetDenom ?coin)"
    by (simp add: escrowCtx_def)
  note inst2 = escrow_unescrow_follow_funds_move[OF inv2, of "demoKeeper False" "''alice''"
      "''escrow-transfer-channel-0''" "''bob''"]
  from inst2 coins2 move2b cover
  have run: "UnescrowCoin (demoKeeper False) ?ctx ''escrow-transfer-channel-0'' ''bob'' ?coin =
           (Success (),
            ?ctx\<lparr>bank := ?b,
                totalEscrow := (totalEscrow ?ctx)
                  (GetDenom ?coin := totalEscrow ?ctx (GetDenom ?coin) - CoinAmount ?coin)\<rparr>)"
    by blast
  have ok2: "fst (UnescrowCoin (demoKeeper False) ?ctx ''escrow-transfer-channel-0'' ''bob'' ?coin) =
          Success ()"
    unfolding run by simp
  have tot2: "totalEscrow (snd (UnescrowCoin (demoKeeper False) ?ctx
          ''escrow-transfer-channel-0'' ''bob'' ?coin)) ''uatom'' = 2"
    unfolding run by (simp add: escrowCtx_def)
  have bob: "bank (snd (UnescrowCoin (demoKeeper False) ?ctx
          ''escrow-transfer-channel-0'' ''bob'' ?coin)) (''bob'', ''uatom'') = 3"
    unfolding run by (simp add: escrowCtx_def demo_defs)
  have left: "bank (snd (UnescrowCoin (demoKeeper False) ?ctx
          ''escrow-transfer-channel-0'' ''bob'' ?coin))
            (''escrow-transfer-channel-0'', ''uatom'') = 2"
    unfolding run by (simp add: escrowCtx_def demo_defs)
  from inv coins move esc fails unesc inv2 coins2 move2 cover ok2 tot2 bob left
  show ?thesis by blast
qed

text \<open>
  The claim as it was stated, with UnescrowCoin returning nil and subtracting whenever the
  move of the funds succeeds, fails when the escrow address holds more than the escrow
  total records: with 5 uatom at the address and a total of 0, the move of 5 uatom
  succeeds, and UnescrowCoin panics and leaves the total at 0.
\<close>

theorem unescrow_move_succeeds_but_panics_counterexample:
  "NewCoins (Coin ''uatom'' 5) = Success [Coin ''uatom'' 5] \<and>
   fst (SendCoins (BankKeeper (demoKeeper False)) (bank (escrowCtx 0))
          ''escrow-transfer-channel-0'' ''bob'' [Coin ''uatom'' 5]) = None \<and>
   fst (UnescrowCoin (demoKeeper False) (escrowCtx 0) ''escrow-transfer-channel-0'' ''bob''
          (Coin ''uatom'' 5)) = Fatal ''negative coin amount'' \<and>
   fst (UnescrowCoin (demoKeeper False) (escrowCtx 0) ''escrow-transfer-channel-0'' ''bob''
          (Coin ''uatom'' 5)) \<noteq> Success () \<and>
   totalEscrow (snd (UnescrowCoin (demoKeeper False) (escrowCtx 0)
          ''escrow-transfer-channel-0'' ''bob'' (Coin ''uatom'' 5))) ''uatom'' = 0"
  by (simp add: escrowCtx_def demo_defs escrow_defs)

section \<open>The direction of a token\<close>

lemma NewCoins_nonneg:
  "0 \<le> CoinAmount coin \<Longrightarrow>
   NewCoins coin = Success (if CoinAmount coin = 0 then [] else [coin])"
  by (simp add: NewCoins_def)

lemma ToCoin_Success:
  "ToCoin ty token = Success coin \<Longrightarrow>
   0 \<le> CoinAmount coin \<and> GetDenom coin = IBCDenom ty (Denom token)"
  by (auto simp: ToCoin_def NewCoin_def split: option.splits if_splits)

lemma bankCall_nonneg:
  "0 \<le> CoinAmount coin \<Longrightarrow>
   bankCall f ctx coin =
     (case f (bank ctx) (if CoinAmount coin = 0 then [] else [coin]) of
        (Some err, b) \<Rightarrow> (Failure err, ctx\<lparr>bank := b\<rparr>)
      | (None, b) \<Rightarrow> (Success (), ctx\<lparr>bank := b\<rparr>))"
  by (simp add: bankCall_def NewCoins_def)

lemma HasPrefix_Trace:
  "HasPrefix d portID channelID \<Longrightarrow> Trace d = NewHop portID channelID # tl (Trace d)"
  by (cases "Trace d") (auto simp: HasPrefix_def)

text \<open>
  Claim C2. For a token of a SendTransfer call whose coin is built and passes the send
  gate of the bank: if its denomination has the prefix (source port, source channel), the
  coin is moved from the sender to the module account and then burnt from it (a failed
  move returns the error of the bank, a failed burn panics), and the escrow totals are not
  changed; otherwise the token is escrowed by EscrowCoin at the escrow address of
  (source port, source channel).
\<close>

theorem send_token_burns_or_escrows:
  assumes "ToCoin (types k) token = Success coin"
    and "IsSendEnabledCoins (BankKeeper k) (bank ctx) coin = None"
  shows
    "(HasPrefix (Denom token) sourcePort sourceChannel \<longrightarrow>
        SendTransfer_token k ctx sourcePort sourceChannel sender token =
          (let coins = (if CoinAmount coin = 0 then [] else [coin])
           in case SendCoinsFromAccountToModule (BankKeeper k) (bank ctx) sender ModuleName coins of
                (Some err, b1) \<Rightarrow> (Failure err, ctx\<lparr>bank := b1\<rparr>)
              | (None, b1) \<Rightarrow>
                  (case BurnCoins (BankKeeper k) b1 ModuleName coins of
                     (Some err, b2) \<Rightarrow> (Fatal burnPanic, ctx\<lparr>bank := b2\<rparr>)
                   | (None, b2) \<Rightarrow> (Success (), ctx\<lparr>bank := b2\<rparr>))) \<and>
        totalEscrow (snd (SendTransfer_token k ctx sourcePort sourceChannel sender token)) =
          totalEscrow ctx) \<and>
     (\<not> HasPrefix (Denom token) sourcePort sourceChannel \<longrightarrow>
        SendTransfer_token k ctx sourcePort sourceChannel sender token =
          EscrowCoin k ctx sender (GetEscrowAddress (types k) sourcePort sourceChannel) coin)"
proof -
  have amt: "0 \<le> CoinAmount coin"
    using ToCoin_Success[OF assms(1)] by simp
  have sink: "SendTransfer_token k ctx sourcePort sourceChannel sender token =
          (let coins = (if CoinAmount coin = 0 then [] else [coin])
           in case SendCoinsFromAccountToModule (BankKeeper k) (bank ctx) sender ModuleName coins of
                (Some err, b1) \<Rightarrow> (Failure err, ctx\<lparr>bank := b1\<rparr>)
              | (None, b1) \<Rightarrow>
                  (case BurnCoins (BankKeeper k) b1 ModuleName coins of
                     (Some err, b2) \<Rightarrow> (Fatal burnPanic, ctx\<lparr>bank := b2\<rparr>)
                   | (None, b2) \<Rightarrow> (Success (), ctx\<lparr>bank := b2\<rparr>)))"
    if "HasPrefix (Denom token) sourcePort sourceChannel"
    using that assms amt
    by (auto simp: SendTransfer_token_def bankCall_nonneg Let_def
        split: prod.splits option.splits)
  have total: "totalEscrow (snd (SendTransfer_token k ctx sourcePort sourceChannel sender token)) =
          totalEscrow ctx"
    if "HasPrefix (Denom token) sourcePort sourceChannel"
    unfolding sink[OF that]
    by (auto simp: Let_def split: prod.splits option.splits)
  have source: "SendTransfer_token k ctx sourcePort sourceChannel sender token =
          EscrowCoin k ctx sender (GetEscrowAddress (types k) sourcePort sourceChannel) coin"
    if "\<not> HasPrefix (Denom token) sourcePort sourceChannel"
    using that assms by (simp add: SendTransfer_token_def)
  from sink total source show ?thesis by blast
qed

theorem send_token_burns_or_escrows_witness:
  "ToCoin (types (demoKeeper False))
     (Token (NewDenom ''uatom'' [NewHop ''transfer'' ''channel-0'']) ''4'') =
     Success (Coin ''transfer/channel-0/uatom'' 4) \<and>
   IsSendEnabledCoins (BankKeeper (demoKeeper False)) (bank demoCtx)
     (Coin ''transfer/channel-0/uatom'' 4) = None \<and>
   HasPrefix (Denom (Token (NewDenom ''uatom'' [NewHop ''transfer'' ''channel-0'']) ''4''))
     ''transfer'' ''channel-0'' \<and>
   fst (SendTransfer_token (demoKeeper False) demoCtx ''transfer'' ''channel-0'' ''alice''
          (Token (NewDenom ''uatom'' [NewHop ''transfer'' ''channel-0'']) ''4'')) = Success () \<and>
   totalEscrow (snd (SendTransfer_token (demoKeeper False) demoCtx ''transfer'' ''channel-0''
          ''alice'' (Token (NewDenom ''uatom'' [NewHop ''transfer'' ''channel-0'']) ''4''))) =
     totalEscrow demoCtx"
proof -
  let ?token = "Token (NewDenom ''uatom'' [NewHop ''transfer'' ''channel-0'']) ''4''"
  let ?coin = "Coin ''transfer/channel-0/uatom'' 4"
  have coin: "ToCoin (types (demoKeeper False)) ?token = Success ?coin"
    by (simp add: demo_defs ToCoin_def NewCoin_def Path_def)
  have gate: "IsSendEnabledCoins (BankKeeper (demoKeeper False)) (bank demoCtx) ?coin = None"
    by (simp add: demo_defs)
  have pre: "HasPrefix (Denom ?token) ''transfer'' ''channel-0''"
    by (simp add: HasPrefix_def)
  note inst = send_token_burns_or_escrows[OF coin gate, of "''transfer''" "''channel-0''" "''alice''",
      THEN conjunct1, THEN mp, OF pre]
  note run = inst[THEN conjunct1] and tot = inst[THEN conjunct2]
  have ok: "fst (SendTransfer_token (demoKeeper False) demoCtx ''transfer'' ''channel-0'' ''alice'' ?token) = Success ()"
    unfolding run by (simp add: demo_defs ModuleName_def)
  from coin gate pre ok tot show ?thesis by blast
qed

lemma bankCall_twice:
  assumes "0 \<le> CoinAmount coin"
  shows "(case bankCall f ctx coin of
            (Fatal m, c1) \<Rightarrow> (Fatal m, c1)
          | (Failure err, c1) \<Rightarrow> (E1 err, c1)
          | (Success u, c1) \<Rightarrow>
              (case bankCall g c1 coin of
                 (Fatal m, c2) \<Rightarrow> (Fatal m, c2)
               | (Failure err, c2) \<Rightarrow> (E2 err, c2)
               | (Success u, c2) \<Rightarrow> (R, c2))) =
         (let coins = (if CoinAmount coin = 0 then [] else [coin])
          in case f (bank ctx) coins of
               (Some err, b1) \<Rightarrow> (E1 err, ctx\<lparr>bank := b1\<rparr>)
             | (None, b1) \<Rightarrow>
                 (case g b1 coins of
                    (Some err, b2) \<Rightarrow> (E2 err, ctx\<lparr>bank := b2\<rparr>)
                  | (None, b2) \<Rightarrow> (R, ctx\<lparr>bank := b2\<rparr>)))"
  using assms
  by (auto simp: bankCall_def NewCoins_def Let_def split: prod.splits option.splits)

lemma recv_mint_case:
  assumes "NewIntFromString (types k) (Amount token) = Some transferAmount"
    and "0 \<le> transferAmount"
    and "\<not> HasPrefix (Denom token) sourcePort sourceChannel"
  shows "OnRecvPacket_token k ctx sourcePort sourceChannel destPort destChannel receiver token =
          (let denom = NewDenom (Base (Denom token))
                         (NewHop destPort destChannel # Trace (Denom token));
               voucher = Coin (IBCDenom (types k) denom) transferAmount;
               coins = (if transferAmount = 0 then [] else [voucher]);
               ctx0 = ctx\<lparr>denoms :=
                            (if HasDenom ctx (Hash (types k) denom) then denoms ctx
                             else (denoms ctx)(Hash (types k) denom \<mapsto> denom)),
                          bank :=
                            (if HasDenomMetaData (BankKeeper k) (bank ctx)
                                  (IBCDenom (types k) denom) then bank ctx
                             else SetDenomMetaData (BankKeeper k) (bank ctx) denom),
                          events := events ctx @ [Token denom (Amount token)]\<rparr>
           in case MintCoins (BankKeeper k) (bank ctx0) ModuleName coins of
                (Some err, b1) \<Rightarrow>
                  (Failure (Wrap err ''failed to mint IBC tokens''), ctx0\<lparr>bank := b1\<rparr>)
              | (None, b1) \<Rightarrow>
                  (case SendCoins (BankKeeper k) b1 (GetModuleAddress k ModuleName)
                          receiver coins of
                     (Some err, b2) \<Rightarrow>
                       (Failure (Wrap err ''failed to send coins to receiver''),
                        ctx0\<lparr>bank := b2\<rparr>)
                   | (None, b2) \<Rightarrow> (Success voucher, ctx0\<lparr>bank := b2\<rparr>)))"
proof -
  let ?denom = "NewDenom (Base (Denom token)) (NewHop destPort destChannel # Trace (Denom token))"
  have amt: "0 \<le> CoinAmount (Coin (IBCDenom (types k) ?denom) transferAmount)"
    using assms(2) by simp
  show ?thesis
  proof (cases "denoms ctx (Hash (types k) ?denom) = None";
         cases "HasDenomMetaData (BankKeeper k) (bank ctx) (IBCDenom (types k) ?denom)")
  qed (insert assms, simp_all add: OnRecvPacket_token_def[unfolded Let_def] NewCoin_def Let_def
        bankCall_twice[OF amt] SetDenom_def SetDenomMetadata_def EmitDenomEvent_def HasDenom_def
        split: prod.splits option.splits)
qed

lemma recv_prefix_case:
  assumes "NewIntFromString (types k) (Amount token) = Some transferAmount"
    and "0 \<le> transferAmount"
    and "HasPrefix (Denom token) sourcePort sourceChannel"
  shows "OnRecvPacket_token k ctx sourcePort sourceChannel destPort destChannel receiver token =
          (let coin = Coin (IBCDenom (types k)
                              (NewDenom (Base (Denom token)) (tl (Trace (Denom token)))))
                        transferAmount
           in case UnescrowCoin k ctx (GetEscrowAddress (types k) destPort destChannel)
                     receiver coin of
                (Success u, ctx1) \<Rightarrow> (Success coin, ctx1)
              | (Failure err, ctx1) \<Rightarrow> (Failure err, ctx1)
              | (Fatal m, ctx1) \<Rightarrow> (Fatal m, ctx1))"
  using assms
  by (simp add: OnRecvPacket_token_def NewCoin_def Let_def)

lemma OnRecvPacket_range_collectEach:
  "OnRecvPacket_range k sourcePort sourceChannel destPort destChannel receiver tokens
     receivedCoins ctx =
   (case collectEach
           (\<lambda>c token. OnRecvPacket_token k c sourcePort sourceChannel destPort destChannel
                          receiver token)
           ctx tokens of
      (Success coins, ctx1) \<Rightarrow> (Success (receivedCoins @ coins), ctx1)
    | (Failure err, ctx1) \<Rightarrow> (Failure err, ctx1)
    | (Fatal m, ctx1) \<Rightarrow> (Fatal m, ctx1))"
proof (induction tokens arbitrary: receivedCoins ctx)
  case Nil
  show ?case by simp
next
  case (Cons token rest)
  let ?f = "\<lambda>c token. OnRecvPacket_token k c sourcePort sourceChannel destPort destChannel
                          receiver token"
  obtain r ctx1 where step: "?f ctx token = (r, ctx1)"
    by (cases "?f ctx token")
  show ?case
  proof (cases r)
    case (Success coin)
    obtain r2 ctx2 where rest: "collectEach ?f ctx1 rest = (r2, ctx2)"
      by (cases "collectEach ?f ctx1 rest")
    from Success step rest Cons.IH[of "receivedCoins @ [coin]" ctx1]
    show ?thesis by (cases r2) simp_all
  next
    case (Failure err)
    with step show ?thesis by simp
  next
    case (Fatal m)
    with step show ?thesis by simp
  qed
qed

lemma collectEach_case_id:
  "(case r of
      (Success coins, c) \<Rightarrow> (Success ([] @ coins), c)
    | (Failure err, c) \<Rightarrow> (Failure err, c)
    | (Fatal m, c) \<Rightarrow> (Fatal m, c)) = (r :: 'c list result \<times> 's)"
  by (cases r) (auto split: result.splits)

lemma OnRecvPacket_collectEach:
  assumes "ValidateBasic (types k) data = None"
    and "ReceiveEnabled (GetParams ctx)"
    and "getReceiverFromPacketData k data = Inr receiver"
    and "\<not> IsBlockedAddr k receiver"
  shows "OnRecvPacket k ctx data sourcePort sourceChannel destPort destChannel =
         collectEach
           (\<lambda>c token. OnRecvPacket_token k c sourcePort sourceChannel destPort destChannel
                          receiver token)
           ctx (Tokens data)"
  using assms
  by (simp add: OnRecvPacket_def OnRecvPacket_range_collectEach collectEach_case_id)

text \<open>
  Claim C3. OnRecvPacket, for packet data that passes validation, with the receive gate
  on and a receiver that resolves and is not blocked, processes the tokens of the packet
  data one after the other, in order, with its own ports and channels and that receiver,
  and returns the coins received, up to the first token that fails. For a token whose
  amount parses to a non-negative integer: if its denomination has the prefix
  (source port, source channel), the leading hop of its trace, which is that hop, is
  dropped, and the coin of the shorter trace is unescrowed by UnescrowCoin from the escrow
  address of (destination port, destination channel) to the receiver; otherwise the hop
  (destination port, destination channel) is put in front of the trace, the new
  denomination is registered unless its hash is registered already, its metadata is set
  unless the bank has it already, and the voucher is minted to the module and sent from
  the module address to the receiver.
\<close>

theorem recv_token_unescrows_or_mints:
  "(\<forall>receiver. ValidateBasic (types k) data = None \<and> ReceiveEnabled (GetParams ctx) \<and>
       getReceiverFromPacketData k data = Inr receiver \<and> \<not> IsBlockedAddr k receiver \<longrightarrow>
     OnRecvPacket k ctx data sourcePort sourceChannel destPort destChannel =
       collectEach
         (\<lambda>c token. OnRecvPacket_token k c sourcePort sourceChannel destPort destChannel
                        receiver token)
         ctx (Tokens data)) \<and>
   (\<forall>c receiver token transferAmount.
      NewIntFromString (types k) (Amount token) = Some transferAmount \<and>
      0 \<le> transferAmount \<longrightarrow>
     (HasPrefix (Denom token) sourcePort sourceChannel \<longrightarrow>
        Trace (Denom token) = NewHop sourcePort sourceChannel # tl (Trace (Denom token)) \<and>
        OnRecvPacket_token k c sourcePort sourceChannel destPort destChannel receiver token =
          (let coin = Coin (IBCDenom (types k)
                              (NewDenom (Base (Denom token)) (tl (Trace (Denom token)))))
                        transferAmount
           in case UnescrowCoin k c (GetEscrowAddress (types k) destPort destChannel)
                     receiver coin of
                (Success u, ctx1) \<Rightarrow> (Success coin, ctx1)
              | (Failure err, ctx1) \<Rightarrow> (Failure err, ctx1)
              | (Fatal m, ctx1) \<Rightarrow> (Fatal m, ctx1))) \<and>
     (\<not> HasPrefix (Denom token) sourcePort sourceChannel \<longrightarrow>
        OnRecvPacket_token k c sourcePort sourceChannel destPort destChannel receiver token =
          (let denom = NewDenom (Base (Denom token))
                         (NewHop destPort destChannel # Trace (Denom token));
               voucher = Coin (IBCDenom (types k) denom) transferAmount;
               coins = (if transferAmount = 0 then [] else [voucher]);
               ctx0 = c\<lparr>denoms :=
                          (if HasDenom c (Hash (types k) denom) then denoms c
                           else (denoms c)(Hash (types k) denom \<mapsto> denom)),
                        bank :=
                          (if HasDenomMetaData (BankKeeper k) (bank c)
                                (IBCDenom (types k) denom) then bank c
                           else SetDenomMetaData (BankKeeper k) (bank c) denom),
                        events := events c @ [Token denom (Amount token)]\<rparr>
           in case MintCoins (BankKeeper k) (bank ctx0) ModuleName coins of
                (Some err, b1) \<Rightarrow>
                  (Failure (Wrap err ''failed to mint IBC tokens''), ctx0\<lparr>bank := b1\<rparr>)
              | (None, b1) \<Rightarrow>
                  (case SendCoins (BankKeeper k) b1 (GetModuleAddress k ModuleName)
                          receiver coins of
                     (Some err, b2) \<Rightarrow>
                       (Failure (Wrap err ''failed to send coins to receiver''),
                        ctx0\<lparr>bank := b2\<rparr>)
                   | (None, b2) \<Rightarrow> (Success voucher, ctx0\<lparr>bank := b2\<rparr>)))))"
proof (intro conjI allI impI)
  fix receiver
  assume "ValidateBasic (types k) data = None \<and> ReceiveEnabled (GetParams ctx) \<and>
       getReceiverFromPacketData k data = Inr receiver \<and> \<not> IsBlockedAddr k receiver"
  then show "OnRecvPacket k ctx data sourcePort sourceChannel destPort destChannel =
       collectEach
         (\<lambda>c token. OnRecvPacket_token k c sourcePort sourceChannel destPort destChannel
                        receiver token)
         ctx (Tokens data)"
    using OnRecvPacket_collectEach[of k data ctx receiver] by blast
next
  fix c receiver token transferAmount
  assume amt: "NewIntFromString (types k) (Amount token) = Some transferAmount \<and>
      0 \<le> transferAmount"
    and pre: "HasPrefix (Denom token) sourcePort sourceChannel"
  show "Trace (Denom token) = NewHop sourcePort sourceChannel # tl (Trace (Denom token))"
    using HasPrefix_Trace[OF pre] .
  show "OnRecvPacket_token k c sourcePort sourceChannel destPort destChannel receiver token =
          (let coin = Coin (IBCDenom (types k)
                              (NewDenom (Base (Denom token)) (tl (Trace (Denom token)))))
                        transferAmount
           in case UnescrowCoin k c (GetEscrowAddress (types k) destPort destChannel)
                     receiver coin of
                (Success u, ctx1) \<Rightarrow> (Success coin, ctx1)
              | (Failure err, ctx1) \<Rightarrow> (Failure err, ctx1)
              | (Fatal m, ctx1) \<Rightarrow> (Fatal m, ctx1))"
    using recv_prefix_case[OF amt[THEN conjunct1] amt[THEN conjunct2] pre] .
next
  fix c receiver token transferAmount
  assume amt: "NewIntFromString (types k) (Amount token) = Some transferAmount \<and>
      0 \<le> transferAmount"
    and nopre: "\<not> HasPrefix (Denom token) sourcePort sourceChannel"
  show "OnRecvPacket_token k c sourcePort sourceChannel destPort destChannel receiver token =
          (let denom = NewDenom (Base (Denom token))
                         (NewHop destPort destChannel # Trace (Denom token));
               voucher = Coin (IBCDenom (types k) denom) transferAmount;
               coins = (if transferAmount = 0 then [] else [voucher]);
               ctx0 = c\<lparr>denoms :=
                          (if HasDenom c (Hash (types k) denom) then denoms c
                           else (denoms c)(Hash (types k) denom \<mapsto> denom)),
                        bank :=
                          (if HasDenomMetaData (BankKeeper k) (bank c)
                                (IBCDenom (types k) denom) then bank c
                           else SetDenomMetaData (BankKeeper k) (bank c) denom),
                        events := events c @ [Token denom (Amount token)]\<rparr>
           in case MintCoins (BankKeeper k) (bank ctx0) ModuleName coins of
                (Some err, b1) \<Rightarrow>
                  (Failure (Wrap err ''failed to mint IBC tokens''), ctx0\<lparr>bank := b1\<rparr>)
              | (None, b1) \<Rightarrow>
                  (case SendCoins (BankKeeper k) b1 (GetModuleAddress k ModuleName)
                          receiver coins of
                     (Some err, b2) \<Rightarrow>
                       (Failure (Wrap err ''failed to send coins to receiver''),
                        ctx0\<lparr>bank := b2\<rparr>)
                   | (None, b2) \<Rightarrow> (Success voucher, ctx0\<lparr>bank := b2\<rparr>)))"
    using recv_mint_case[OF amt[THEN conjunct1] amt[THEN conjunct2] nopre] .
qed

theorem recv_token_unescrows_or_mints_witness:
  "ValidateBasic (types (demoKeeper False))
     (NewFungibleTokenPacketDataV2
        [Token (NewDenom ''uatom'' [NewHop ''transfer'' ''channel-7'']) ''3'',
         Token (NewDenom ''uosmo'' []) ''4'']
        ''carol'' ''bob'' [] (NewForwardingPacketData [] [])) = None \<and>
   ReceiveEnabled (GetParams (escrowCtx 5)) \<and>
   getReceiverFromPacketData (demoKeeper False)
     (NewFungibleTokenPacketDataV2
        [Token (NewDenom ''uatom'' [NewHop ''transfer'' ''channel-7'']) ''3'',
         Token (NewDenom ''uosmo'' []) ''4'']
        ''carol'' ''bob'' [] (NewForwardingPacketData [] [])) = Inr ''bob'' \<and>
   \<not> IsBlockedAddr (demoKeeper False) ''bob'' \<and>
   fst (OnRecvPacket (demoKeeper False) (escrowCtx 5)
     (NewFungibleTokenPacketDataV2
        [Token (NewDenom ''uatom'' [NewHop ''transfer'' ''channel-7'']) ''3'',
         Token (NewDenom ''uosmo'' []) ''4'']
        ''carol'' ''bob'' [] (NewForwardingPacketData [] []))
     ''transfer'' ''channel-7'' ''transfer'' ''channel-0'') =
     Success [Coin ''uatom'' 3, Coin ''transfer/channel-0/uosmo'' 4] \<and>
   totalEscrow (snd (OnRecvPacket (demoKeeper False) (escrowCtx 5)
     (NewFungibleTokenPacketDataV2
        [Token (NewDenom ''uatom'' [NewHop ''transfer'' ''channel-7'']) ''3'',
         Token (NewDenom ''uosmo'' []) ''4'']
        ''carol'' ''bob'' [] (NewForwardingPacketData [] []))
     ''transfer'' ''channel-7'' ''transfer'' ''channel-0'')) ''uatom'' = 2 \<and>
   bank (snd (OnRecvPacket (demoKeeper False) (escrowCtx 5)
     (NewFungibleTokenPacketDataV2
        [Token (NewDenom ''uatom'' [NewHop ''transfer'' ''channel-7'']) ''3'',
         Token (NewDenom ''uosmo'' []) ''4'']
        ''carol'' ''bob'' [] (NewForwardingPacketData [] []))
     ''transfer'' ''channel-7'' ''transfer'' ''channel-0'')) (''bob'', ''uatom'') = 3 \<and>
   bank (snd (OnRecvPacket (demoKeeper False) (escrowCtx 5)
     (NewFungibleTokenPacketDataV2
        [Token (NewDenom ''uatom'' [NewHop ''transfer'' ''channel-7'']) ''3'',
         Token (NewDenom ''uosmo'' []) ''4'']
        ''carol'' ''bob'' [] (NewForwardingPacketData [] []))
     ''transfer'' ''channel-7'' ''transfer'' ''channel-0''))
     (''escrow-transfer-channel-0'', ''uatom'') = 2 \<and>
   bank (snd (OnRecvPacket (demoKeeper False) (escrowCtx 5)
     (NewFungibleTokenPacketDataV2
        [Token (NewDenom ''uatom'' [NewHop ''transfer'' ''channel-7'']) ''3'',
         Token (NewDenom ''uosmo'' []) ''4'']
        ''carol'' ''bob'' [] (NewForwardingPacketData [] []))
     ''transfer'' ''channel-7'' ''transfer'' ''channel-0''))
     (''bob'', ''transfer/channel-0/uosmo'') = 4"
proof -
  let ?data = "NewFungibleTokenPacketDataV2
        [Token (NewDenom ''uatom'' [NewHop ''transfer'' ''channel-7'']) ''3'',
         Token (NewDenom ''uosmo'' []) ''4'']
        ''carol'' ''bob'' [] (NewForwardingPacketData [] [])"
  have valid: "ValidateBasic (types (demoKeeper False)) ?data = None"
    by (simp add: demo_defs)
  have gate: "ReceiveEnabled (GetParams (escrowCtx 5))"
    by (simp add: escrowCtx_def demoCtx_def)
  have receiver: "getReceiverFromPacketData (demoKeeper False) ?data = Inr ''bob''"
    by (simp add: demo_defs)
  have free: "\<not> IsBlockedAddr (demoKeeper False) ''bob''"
    by (simp add: demoKeeper_def)
  note run = recv_token_unescrows_or_mints[of "demoKeeper False" ?data "escrowCtx 5"
      "''transfer''" "''channel-7''" "''transfer''" "''channel-0''",
      THEN conjunct1, THEN spec, THEN mp, OF conjI, OF valid conjI, OF gate conjI,
      OF receiver free]
  have "fst (OnRecvPacket (demoKeeper False) (escrowCtx 5) ?data
          ''transfer'' ''channel-7'' ''transfer'' ''channel-0'') =
          Success [Coin ''uatom'' 3, Coin ''transfer/channel-0/uosmo'' 4] \<and>
        totalEscrow (snd (OnRecvPacket (demoKeeper False) (escrowCtx 5) ?data
          ''transfer'' ''channel-7'' ''transfer'' ''channel-0'')) ''uatom'' = 2 \<and>
        bank (snd (OnRecvPacket (demoKeeper False) (escrowCtx 5) ?data
          ''transfer'' ''channel-7'' ''transfer'' ''channel-0'')) (''bob'', ''uatom'') = 3 \<and>
        bank (snd (OnRecvPacket (demoKeeper False) (escrowCtx 5) ?data
          ''transfer'' ''channel-7'' ''transfer'' ''channel-0''))
          (''escrow-transfer-channel-0'', ''uatom'') = 2 \<and>
        bank (snd (OnRecvPacket (demoKeeper False) (escrowCtx 5) ?data
          ''transfer'' ''channel-7'' ''transfer'' ''channel-0''))
          (''bob'', ''transfer/channel-0/uosmo'') = 4"
    unfolding run
    by (simp add: escrowCtx_def demo_defs escrow_defs OnRecvPacket_token_def Path_def
        HasPrefix_def HasDenom_def SetDenom_def SetDenomMetadata_def EmitDenomEvent_def
        ModuleName_def Let_def)
  with valid gate receiver free show ?thesis by blast
qed

section \<open>Acknowledgements and timeouts\<close>

lemma result_case_id:
  "(case r of
      (Fatal m, c) \<Rightarrow> (Fatal m, c)
    | (Failure err, c) \<Rightarrow> (Failure err, c)
    | (Success u, c) \<Rightarrow> (Success (), c)) = (r :: unit result \<times> 's)"
  by (cases r) (auto split: result.splits)

lemma refundPacketTokens_range_processEach:
  "refundPacketTokens_range k sourcePort sourceChannel sender escrowAddress moduleAccountAddr
     tokens ctx =
   processEach
     (\<lambda>c token. refundPacketTokens_token k c sourcePort sourceChannel sender escrowAddress
                    moduleAccountAddr token)
     ctx tokens"
  by (induction tokens arbitrary: ctx) (auto split: prod.splits result.splits)

lemma refund_token_mint_case:
  assumes "ToCoin (types k) token = Success coin"
    and "HasPrefix (Denom token) sourcePort sourceChannel"
  shows "refundPacketTokens_token k ctx sourcePort sourceChannel sender escrowAddress
           moduleAccountAddr token =
         (let coins = (if CoinAmount coin = 0 then [] else [coin])
          in case MintCoins (BankKeeper k) (bank ctx) ModuleName coins of
               (Some err, b1) \<Rightarrow> (Failure err, ctx\<lparr>bank := b1\<rparr>)
             | (None, b1) \<Rightarrow>
                 (case SendCoins (BankKeeper k) b1 moduleAccountAddr sender coins of
                    (Some err, b2) \<Rightarrow> (Fatal refundPanic, ctx\<lparr>bank := b2\<rparr>)
                  | (None, b2) \<Rightarrow> (Success (), ctx\<lparr>bank := b2\<rparr>)))"
proof -
  have amt: "0 \<le> CoinAmount coin"
    using ToCoin_Success[OF assms(1)] by simp
  show ?thesis
    using assms
    by (simp add: refundPacketTokens_token_def bankCall_twice[OF amt])
qed

lemma refund_token_unescrow_case:
  assumes "ToCoin (types k) token = Success coin"
    and "\<not> HasPrefix (Denom token) sourcePort sourceChannel"
  shows "refundPacketTokens_token k ctx sourcePort sourceChannel sender escrowAddress
           moduleAccountAddr token =
         UnescrowCoin k ctx escrowAddress sender coin"
  using assms by (simp add: refundPacketTokens_token_def)

text \<open>
  Claim C5. OnAcknowledgementPacket with a result acknowledgement returns nil and leaves
  the context as it was. With an error acknowledgement it does what refundPacketTokens
  does, and so does OnTimeoutPacket. refundPacketTokens returns an error and changes
  nothing when the sender of the packet data does not parse or is blocked; otherwise it
  refunds the tokens of the packet data one after the other, in order, up to the first
  that fails: a token whose denomination has the prefix (source port, source channel) is
  minted to the module and sent from the module address to the sender (a failed send
  after the mint panics), any other token is unescrowed by UnescrowCoin from the escrow
  address of (source port, source channel) to the sender.
\<close>

theorem ack_error_and_timeout_refund:
  "OnAcknowledgementPacket k ctx sourcePort sourceChannel data (Acknowledgement_Result res) =
     (Success (), ctx) \<and>
   OnAcknowledgementPacket k ctx sourcePort sourceChannel data (Acknowledgement_Error e) =
     refundPacketTokens k ctx sourcePort sourceChannel data \<and>
   OnTimeoutPacket k ctx sourcePort sourceChannel data =
     refundPacketTokens k ctx sourcePort sourceChannel data \<and>
   (\<forall>err. AccAddressFromBech32 (types k) (Sender data) = Inl err \<longrightarrow>
      refundPacketTokens k ctx sourcePort sourceChannel data = (Failure err, ctx)) \<and>
   (\<forall>sender. AccAddressFromBech32 (types k) (Sender data) = Inr sender \<and>
        IsBlockedAddr k sender \<longrightarrow>
      refundPacketTokens k ctx sourcePort sourceChannel data =
        (Failure (Wrap ErrUnauthorized ''is not allowed to receive funds''), ctx)) \<and>
   (\<forall>sender. AccAddressFromBech32 (types k) (Sender data) = Inr sender \<and>
        \<not> IsBlockedAddr k sender \<longrightarrow>
      refundPacketTokens k ctx sourcePort sourceChannel data =
        processEach
          (\<lambda>c token. refundPacketTokens_token k c sourcePort sourceChannel sender
             (GetEscrowAddress (types k) sourcePort sourceChannel)
             (GetModuleAddress k ModuleName) token)
          ctx (Tokens data)) \<and>
   (\<forall>c sender token coin. ToCoin (types k) token = Success coin \<longrightarrow>
      (HasPrefix (Denom token) sourcePort sourceChannel \<longrightarrow>
         refundPacketTokens_token k c sourcePort sourceChannel sender
           (GetEscrowAddress (types k) sourcePort sourceChannel)
           (GetModuleAddress k ModuleName) token =
         (let coins = (if CoinAmount coin = 0 then [] else [coin])
          in case MintCoins (BankKeeper k) (bank c) ModuleName coins of
               (Some err, b1) \<Rightarrow> (Failure err, c\<lparr>bank := b1\<rparr>)
             | (None, b1) \<Rightarrow>
                 (case SendCoins (BankKeeper k) b1 (GetModuleAddress k ModuleName) sender
                         coins of
                    (Some err, b2) \<Rightarrow> (Fatal refundPanic, c\<lparr>bank := b2\<rparr>)
                  | (None, b2) \<Rightarrow> (Success (), c\<lparr>bank := b2\<rparr>)))) \<and>
      (\<not> HasPrefix (Denom token) sourcePort sourceChannel \<longrightarrow>
         refundPacketTokens_token k c sourcePort sourceChannel sender
           (GetEscrowAddress (types k) sourcePort sourceChannel)
           (GetModuleAddress k ModuleName) token =
         UnescrowCoin k c (GetEscrowAddress (types k) sourcePort sourceChannel) sender coin))"
proof (intro conjI allI impI)
  show "OnAcknowledgementPacket k ctx sourcePort sourceChannel data (Acknowledgement_Result res) =
     (Success (), ctx)"
    by (simp add: OnAcknowledgementPacket_def)
  show "OnAcknowledgementPacket k ctx sourcePort sourceChannel data (Acknowledgement_Error e) =
     refundPacketTokens k ctx sourcePort sourceChannel data"
    by (simp add: OnAcknowledgementPacket_def result_case_id)
  show "OnTimeoutPacket k ctx sourcePort sourceChannel data =
     refundPacketTokens k ctx sourcePort sourceChannel data"
    by (simp add: OnTimeoutPacket_def)
next
  fix err
  assume "AccAddressFromBech32 (types k) (Sender data) = Inl err"
  then show "refundPacketTokens k ctx sourcePort sourceChannel data = (Failure err, ctx)"
    by (simp add: refundPacketTokens_def)
next
  fix sender
  assume "AccAddressFromBech32 (types k) (Sender data) = Inr sender \<and> IsBlockedAddr k sender"
  then show "refundPacketTokens k ctx sourcePort sourceChannel data =
        (Failure (Wrap ErrUnauthorized ''is not allowed to receive funds''), ctx)"
    by (simp add: refundPacketTokens_def)
next
  fix sender
  assume "AccAddressFromBech32 (types k) (Sender data) = Inr sender \<and> \<not> IsBlockedAddr k sender"
  then show "refundPacketTokens k ctx sourcePort sourceChannel data =
        processEach
          (\<lambda>c token. refundPacketTokens_token k c sourcePort sourceChannel sender
             (GetEscrowAddress (types k) sourcePort sourceChannel)
             (GetModuleAddress k ModuleName) token)
          ctx (Tokens data)"
    by (simp add: refundPacketTokens_def refundPacketTokens_range_processEach)
next
  fix c sender token coin
  assume coin: "ToCoin (types k) token = Success coin"
    and pre: "HasPrefix (Denom token) sourcePort sourceChannel"
  show "refundPacketTokens_token k c sourcePort sourceChannel sender
           (GetEscrowAddress (types k) sourcePort sourceChannel)
           (GetModuleAddress k ModuleName) token =
         (let coins = (if CoinAmount coin = 0 then [] else [coin])
          in case MintCoins (BankKeeper k) (bank c) ModuleName coins of
               (Some err, b1) \<Rightarrow> (Failure err, c\<lparr>bank := b1\<rparr>)
             | (None, b1) \<Rightarrow>
                 (case SendCoins (BankKeeper k) b1 (GetModuleAddress k ModuleName) sender
                         coins of
                    (Some err, b2) \<Rightarrow> (Fatal refundPanic, c\<lparr>bank := b2\<rparr>)
                  | (None, b2) \<Rightarrow> (Success (), c\<lparr>bank := b2\<rparr>)))"
    using refund_token_mint_case[OF coin pre] .
next
  fix c sender token coin
  assume coin: "ToCoin (types k) token = Success coin"
    and nopre: "\<not> HasPrefix (Denom token) sourcePort sourceChannel"
  show "refundPacketTokens_token k c sourcePort sourceChannel sender
           (GetEscrowAddress (types k) sourcePort sourceChannel)
           (GetModuleAddress k ModuleName) token =
         UnescrowCoin k c (GetEscrowAddress (types k) sourcePort sourceChannel) sender coin"
    using refund_token_unescrow_case[OF coin nopre] .
qed

theorem ack_error_and_timeout_refund_witness:
  "AccAddressFromBech32 (types (demoKeeper False))
     (Sender (NewFungibleTokenPacketDataV2
        [Token (NewDenom ''uatom'' [NewHop ''transfer'' ''channel-0'']) ''4'']
        ''alice'' ''bob'' [] (NewForwardingPacketData [] []))) = Inr ''alice'' \<and>
   \<not> IsBlockedAddr (demoKeeper False) ''alice'' \<and>
   fst (OnAcknowledgementPacket (demoKeeper False) demoCtx ''transfer'' ''channel-0''
          (NewFungibleTokenPacketDataV2
             [Token (NewDenom ''uatom'' [NewHop ''transfer'' ''channel-0'']) ''4'']
             ''alice'' ''bob'' [] (NewForwardingPacketData [] []))
          (Acknowledgement_Error ''failed'')) = Success () \<and>
   bank (snd (OnAcknowledgementPacket (demoKeeper False) demoCtx ''transfer'' ''channel-0''
          (NewFungibleTokenPacketDataV2
             [Token (NewDenom ''uatom'' [NewHop ''transfer'' ''channel-0'']) ''4'']
             ''alice'' ''bob'' [] (NewForwardingPacketData [] []))
          (Acknowledgement_Error ''failed''))) (''alice'', ''transfer/channel-0/uatom'') = 11"
proof -
  let ?data = "NewFungibleTokenPacketDataV2
             [Token (NewDenom ''uatom'' [NewHop ''transfer'' ''channel-0'']) ''4'']
             ''alice'' ''bob'' [] (NewForwardingPacketData [] [])"
  have sender: "AccAddressFromBech32 (types (demoKeeper False)) (Sender ?data) = Inr ''alice''"
    by (simp add: demo_defs)
  have free: "\<not> IsBlockedAddr (demoKeeper False) ''alice''"
    by (simp add: demo_defs)
  note inst = ack_error_and_timeout_refund[of "demoKeeper False" demoCtx "''transfer''"
      "''channel-0''" ?data "[]" "''failed''"]
  note ack = inst[THEN conjunct2, THEN conjunct1]
  note refund = inst[THEN conjunct2, THEN conjunct2, THEN conjunct2, THEN conjunct2,
      THEN conjunct2, THEN conjunct1, THEN spec, THEN mp, OF conjI, OF sender free]
  have run: "fst (OnAcknowledgementPacket (demoKeeper False) demoCtx ''transfer'' ''channel-0''
          ?data (Acknowledgement_Error ''failed'')) = Success () \<and>
        bank (snd (OnAcknowledgementPacket (demoKeeper False) demoCtx ''transfer'' ''channel-0''
          ?data (Acknowledgement_Error ''failed''))) (''alice'', ''transfer/channel-0/uatom'') = 11"
    unfolding ack refund
    by (simp add: demo_defs refundPacketTokens_token_def ToCoin_def NewCoin_def Path_def
        HasPrefix_def bankCall_def NewCoins_def ModuleName_def)
  with sender free show ?thesis by blast
qed

section \<open>Forwarded packets: revert, then acknowledge\<close>

lemma forwarded_ack_result:
  "HandleForwardedPacketAcknowledgement k ctx packet forwardedPacket data
     (Acknowledgement_Result res) =
   acknowledgeForwardedPacket k ctx forwardedPacket packet (Acknowledgement_Result [1])"
  by (simp add: HandleForwardedPacketAcknowledgement_def)

lemma acknowledgeForwardedPacket_revert_independent:
  "acknowledgeForwardedPacket (k\<lparr>revertForwardedPacket := r\<rparr>) ctx forwardedPacket packet ack =
   acknowledgeForwardedPacket k ctx forwardedPacket packet ack"
  by (simp add: acknowledgeForwardedPacket_def)

text \<open>
  Claim C6. HandleForwardedPacketAcknowledgement with a result acknowledgement hands the
  acknowledgement of the one byte 1 for the forwarded (originally received) packet to the
  relay layer and changes nothing else; the revert plays no part in it, whatever it would
  do. With an error acknowledgement, and in HandleForwardedPacketTimeout, the revert of
  the forwarded packet runs first: when it returns nil, the error (or timeout)
  acknowledgement is built and handed over in the context the revert left; when it fails
  or panics, the handler ends with that outcome in the context the revert left, and no
  acknowledgement is handed over.
\<close>

theorem forwarded_packet_reverts_before_acknowledging:
  "HandleForwardedPacketAcknowledgement k ctx packet forwardedPacket data
       (Acknowledgement_Result res) =
     acknowledgeForwardedPacket k ctx forwardedPacket packet (Acknowledgement_Result [1]) \<and>
   HandleForwardedPacketAcknowledgement (k\<lparr>revertForwardedPacket := r\<rparr>) ctx packet
       forwardedPacket data (Acknowledgement_Result res) =
     HandleForwardedPacketAcknowledgement k ctx packet forwardedPacket data
       (Acknowledgement_Result res) \<and>
   (WriteAcknowledgement k ctx forwardedPacket (Acknowledgement_Result [1]) = None \<longrightarrow>
      HandleForwardedPacketAcknowledgement k ctx packet forwardedPacket data
          (Acknowledgement_Result res) =
        (Success (), ctx\<lparr>acks := acks ctx @ [(forwardedPacket, Acknowledgement_Result [1])]\<rparr>)) \<and>
   (\<forall>ctx1. revertForwardedPacket k ctx forwardedPacket data = (Success (), ctx1) \<longrightarrow>
      HandleForwardedPacketAcknowledgement k ctx packet forwardedPacket data
          (Acknowledgement_Error e) =
        acknowledgeForwardedPacket k ctx1 forwardedPacket packet
          (NewForwardErrorAcknowledgement (types k) packet (Acknowledgement_Error e)) \<and>
      HandleForwardedPacketTimeout k ctx packet forwardedPacket data =
        acknowledgeForwardedPacket k ctx1 forwardedPacket packet
          (NewForwardTimeoutAcknowledgement (types k) packet)) \<and>
   (\<forall>err ctx1. revertForwardedPacket k ctx forwardedPacket data = (Failure err, ctx1) \<longrightarrow>
      HandleForwardedPacketAcknowledgement k ctx packet forwardedPacket data
          (Acknowledgement_Error e) = (Failure err, ctx1) \<and>
      HandleForwardedPacketTimeout k ctx packet forwardedPacket data = (Failure err, ctx1)) \<and>
   (\<forall>m ctx1. revertForwardedPacket k ctx forwardedPacket data = (Fatal m, ctx1) \<longrightarrow>
      HandleForwardedPacketAcknowledgement k ctx packet forwardedPacket data
          (Acknowledgement_Error e) = (Fatal m, ctx1) \<and>
      HandleForwardedPacketTimeout k ctx packet forwardedPacket data = (Fatal m, ctx1))"
proof (intro conjI allI impI)
  show "HandleForwardedPacketAcknowledgement k ctx packet forwardedPacket data
       (Acknowledgement_Result res) =
     acknowledgeForwardedPacket k ctx forwardedPacket packet (Acknowledgement_Result [1])"
    by (rule forwarded_ack_result)
  show "HandleForwardedPacketAcknowledgement (k\<lparr>revertForwardedPacket := r\<rparr>) ctx packet
       forwardedPacket data (Acknowledgement_Result res) =
     HandleForwardedPacketAcknowledgement k ctx packet forwardedPacket data
       (Acknowledgement_Result res)"
    by (simp only: forwarded_ack_result acknowledgeForwardedPacket_revert_independent)
next
  assume "WriteAcknowledgement k ctx forwardedPacket (Acknowledgement_Result [1]) = None"
  then show "HandleForwardedPacketAcknowledgement k ctx packet forwardedPacket data
          (Acknowledgement_Result res) =
        (Success (), ctx\<lparr>acks := acks ctx @ [(forwardedPacket, Acknowledgement_Result [1])]\<rparr>)"
    by (simp add: forwarded_ack_result acknowledgeForwardedPacket_def)
next
  fix ctx1
  assume ok: "revertForwardedPacket k ctx forwardedPacket data = (Success (), ctx1)"
  show "HandleForwardedPacketAcknowledgement k ctx packet forwardedPacket data
          (Acknowledgement_Error e) =
        acknowledgeForwardedPacket k ctx1 forwardedPacket packet
          (NewForwardErrorAcknowledgement (types k) packet (Acknowledgement_Error e))"
    using ok by (simp add: HandleForwardedPacketAcknowledgement_def)
  show "HandleForwardedPacketTimeout k ctx packet forwardedPacket data =
        acknowledgeForwardedPacket k ctx1 forwardedPacket packet
          (NewForwardTimeoutAcknowledgement (types k) packet)"
    using ok by (simp add: HandleForwardedPacketTimeout_def)
next
  fix err ctx1
  assume bad: "revertForwardedPacket k ctx forwardedPacket data = (Failure err, ctx1)"
  show "HandleForwardedPacketAcknowledgement k ctx packet forwardedPacket data
          (Acknowledgement_Error e) = (Failure err, ctx1)"
    using bad by (simp add: HandleForwardedPacketAcknowledgement_def)
  show "HandleForwardedPacketTimeout k ctx packet forwardedPacket data = (Failure err, ctx1)"
    using bad by (simp add: HandleForwardedPacketTimeout_def)
next
  fix m ctx1
  assume bad: "revertForwardedPacket k ctx forwardedPacket data = (Fatal m, ctx1)"
  show "HandleForwardedPacketAcknowledgement k ctx packet forwardedPacket data
          (Acknowledgement_Error e) = (Fatal m, ctx1)"
    using bad by (simp add: HandleForwardedPacketAcknowledgement_def)
  show "HandleForwardedPacketTimeout k ctx packet forwardedPacket data = (Fatal m, ctx1)"
    using bad by (simp add: HandleForwardedPacketTimeout_def)
qed

theorem forwarded_packet_reverts_before_acknowledging_witness:
  "revertForwardedPacket (demoKeeper True) demoCtx
     (Packet 1 ''transfer'' ''channel-7'' ''transfer'' ''channel-0'')
     (NewFungibleTokenPacketDataV2 [] ''alice'' ''bob'' [] (NewForwardingPacketData [] [])) =
     (Failure (ErrOther ''revert failed''), demoCtx) \<and>
   HandleForwardedPacketAcknowledgement (demoKeeper True) demoCtx
     (Packet 9 ''transfer'' ''channel-1'' ''transfer'' ''channel-5'')
     (Packet 1 ''transfer'' ''channel-7'' ''transfer'' ''channel-0'')
     (NewFungibleTokenPacketDataV2 [] ''alice'' ''bob'' [] (NewForwardingPacketData [] []))
     (Acknowledgement_Error ''failed'') =
     (Failure (ErrOther ''revert failed''), demoCtx) \<and>
   acks demoCtx = []"
proof -
  let ?fp = "Packet 1 ''transfer'' ''channel-7'' ''transfer'' ''channel-0''"
  let ?p = "Packet 9 ''transfer'' ''channel-1'' ''transfer'' ''channel-5''"
  let ?data = "NewFungibleTokenPacketDataV2 [] ''alice'' ''bob'' [] (NewForwardingPacketData [] [])"
  have bad: "revertForwardedPacket (demoKeeper True) demoCtx ?fp ?data =
     (Failure (ErrOther ''revert failed''), demoCtx)"
    by (simp add: demoKeeper_def)
  note inst = forwarded_packet_reverts_before_acknowledging[of "demoKeeper True" demoCtx ?p ?fp
      ?data "[]" "revertForwardedPacket (demoKeeper True)" "''failed''"]
  note fail = inst[THEN conjunct2, THEN conjunct2, THEN conjunct2, THEN conjunct2,
      THEN conjunct1, THEN spec, THEN spec, THEN mp, OF bad, THEN conjunct1]
  have "acks demoCtx = []" by (simp add: demoCtx_def)
  with bad fail show ?thesis by blast
qed

section \<open>The gates\<close>

text \<open>
  Claim C7, amended. SendTransfer with the send gate off returns ErrSendDisabled, and with
  the send gate on and a blocked sender returns ErrUnauthorized (wrapped), in both cases
  before any token is processed and with the context unchanged. OnRecvPacket validates
  the packet data first: packet data that fails validation is answered with the
  validation error, whatever the gate; packet data that passes validation is answered
  with ErrReceiveDisabled when the receive gate is off, and with ErrUnauthorized (wrapped)
  when the gate is on and the receiver of the packet data resolves to a blocked address.
  In each of these cases the context is unchanged.
\<close>

theorem gates_reject_without_mutation:
  "(\<not> SendEnabled (GetParams ctx) \<longrightarrow>
      SendTransfer k ctx sourcePort sourceChannel tokens sender =
        (Failure ErrSendDisabled, ctx)) \<and>
   (SendEnabled (GetParams ctx) \<and> IsBlockedAddr k sender \<longrightarrow>
      SendTransfer k ctx sourcePort sourceChannel tokens sender =
        (Failure (Wrap ErrUnauthorized ''is not allowed to send funds''), ctx)) \<and>
   (\<forall>err. ValidateBasic (types k) data = Some err \<longrightarrow>
      OnRecvPacket k ctx data sourcePort sourceChannel destPort destChannel =
        (Failure (Wrap err ''error validating ICS-20 transfer packet data''), ctx)) \<and>
   (ValidateBasic (types k) data = None \<and> \<not> ReceiveEnabled (GetParams ctx) \<longrightarrow>
      OnRecvPacket k ctx data sourcePort sourceChannel destPort destChannel =
        (Failure ErrReceiveDisabled, ctx)) \<and>
   (\<forall>receiver. ValidateBasic (types k) data = None \<and> ReceiveEnabled (GetParams ctx) \<and>
        getReceiverFromPacketData k data = Inr receiver \<and> IsBlockedAddr k receiver \<longrightarrow>
      OnRecvPacket k ctx data sourcePort sourceChannel destPort destChannel =
        (Failure (Wrap ErrUnauthorized ''is not allowed to receive funds''), ctx))"
  by (simp add: SendTransfer_def OnRecvPacket_def)

theorem gates_reject_without_mutation_witness:
  "ValidateBasic (types (demoKeeper False))
     (NewFungibleTokenPacketDataV2 [Token (NewDenom ''uatom'' []) ''4''] ''carol'' ''blocked'' []
        (NewForwardingPacketData [] [])) = None \<and>
   ReceiveEnabled (GetParams demoCtx) \<and>
   getReceiverFromPacketData (demoKeeper False)
     (NewFungibleTokenPacketDataV2 [Token (NewDenom ''uatom'' []) ''4''] ''carol'' ''blocked'' []
        (NewForwardingPacketData [] [])) = Inr ''blocked'' \<and>
   IsBlockedAddr (demoKeeper False) ''blocked'' \<and>
   OnRecvPacket (demoKeeper False) demoCtx
     (NewFungibleTokenPacketDataV2 [Token (NewDenom ''uatom'' []) ''4''] ''carol'' ''blocked'' []
        (NewForwardingPacketData [] []))
     ''transfer'' ''channel-7'' ''transfer'' ''channel-0'' =
     (Failure (Wrap ErrUnauthorized ''is not allowed to receive funds''), demoCtx)"
proof -
  let ?data = "NewFungibleTokenPacketDataV2 [Token (NewDenom ''uatom'' []) ''4''] ''carol''
                 ''blocked'' [] (NewForwardingPacketData [] [])"
  have valid: "ValidateBasic (types (demoKeeper False)) ?data = None"
    by (simp add: demo_defs)
  have gate: "ReceiveEnabled (GetParams demoCtx)"
    by (simp add: demoCtx_def)
  have receiver: "getReceiverFromPacketData (demoKeeper False) ?data = Inr ''blocked''"
    by (simp add: demo_defs)
  have blocked: "IsBlockedAddr (demoKeeper False) ''blocked''"
    by (simp add: demoKeeper_def)
  note inst = gates_reject_without_mutation[of demoCtx "demoKeeper False" "''transfer''"
      "''channel-7''" "[]" "''carol''" ?data "''transfer''" "''channel-0''"]
  from inst valid gate receiver blocked
  have "OnRecvPacket (demoKeeper False) demoCtx ?data
          ''transfer'' ''channel-7'' ''transfer'' ''channel-0'' =
        (Failure (Wrap ErrUnauthorized ''is not allowed to receive funds''), demoCtx)"
    by blast
  with valid gate receiver blocked show ?thesis by blast
qed

text \<open>
  The claim as it was stated fails for packet data that does not pass validation: with the
  receive gate off and a token of amount 0, OnRecvPacket returns the validation error,
  whose cause is not ErrReceiveDisabled.
\<close>

theorem recv_gate_off_invalid_data_counterexample:
  "\<not> ReceiveEnabled (GetParams (demoCtx\<lparr>GetParams := \<lparr>SendEnabled = True, ReceiveEnabled = False\<rparr>\<rparr>)) \<and>
   fst (OnRecvPacket (demoKeeper False)
          (demoCtx\<lparr>GetParams := \<lparr>SendEnabled = True, ReceiveEnabled = False\<rparr>\<rparr>)
          (NewFungibleTokenPacketDataV2 [Token (NewDenom ''uatom'' []) ''0''] ''carol'' ''bob'' []
             (NewForwardingPacketData [] []))
          ''transfer'' ''channel-7'' ''transfer'' ''channel-0'') =
     Failure (Wrap ErrInvalidAmount ''error validating ICS-20 transfer packet data'') \<and>
   Cause (Wrap ErrInvalidAmount ''error validating ICS-20 transfer packet data'') \<noteq>
     ErrReceiveDisabled"
  by (simp add: OnRecvPacket_def demo_defs)

section \<open>Packet data bytes by version\<close>

text \<open>
  Claim C8. createPacketDataBytesFromVersion with the application version V1 and a list of
  tokens whose length is not 1 returns nil bytes and an error whose cause is
  ErrInvalidRequest; so it does for every list of two tokens.
\<close>

theorem v1_rejects_all_but_one_token:
  "(length tokens \<noteq> 1 \<longrightarrow>
      createPacketDataBytesFromVersion ty V1 sender receiver memo tokens hops =
        (None, Some (Wrap ErrInvalidRequest ''cannot transfer multiple coins with ics20-1''))) \<and>
   createPacketDataBytesFromVersion ty V1 sender receiver memo [token1, token2] hops =
     (None, Some (Wrap ErrInvalidRequest ''cannot transfer multiple coins with ics20-1'')) \<and>
   Cause (Wrap ErrInvalidRequest ''cannot transfer multiple coins with ics20-1'') =
     ErrInvalidRequest"
  by (simp add: createPacketDataBytesFromVersion_def)

theorem v1_rejects_all_but_one_token_witness:
  "length ([] :: Token list) \<noteq> 1 \<and>
   createPacketDataBytesFromVersion demoTypes V1 ''alice'' ''bob'' ''memo'' [] [] =
     (None, Some (Wrap ErrInvalidRequest ''cannot transfer multiple coins with ics20-1''))"
proof -
  have len: "length ([] :: Token list) \<noteq> 1" by simp
  from v1_rejects_all_but_one_token[of "[]" demoTypes "''alice''" "''bob''" "''memo''" "[]",
      THEN conjunct1, THEN mp, OF len] len
  show ?thesis by blast
qed

text \<open>
  Claim C9. createPacketDataBytesFromVersion with the application version V2 validates and
  encodes this packet data: with a non-empty list of hops, the forwarding part holds the
  given memo and the hops and the memo of the packet data is the empty string; with an
  empty list of hops, the memo of the packet data is the given memo and the forwarding
  part is empty.
\<close>

theorem v2_moves_memo_into_forwarding:
  "(hops \<noteq> [] \<longrightarrow>
      createPacketDataBytesFromVersion ty V2 sender receiver memo tokens hops =
        (case ValidateBasic ty (NewFungibleTokenPacketDataV2 tokens sender receiver []
                                  (NewForwardingPacketData memo hops)) of
           Some err \<Rightarrow> (None, Some (Wrap err ''failed to validate ics20-2 packet data''))
         | None \<Rightarrow>
             (Some (GetBytes ty (NewFungibleTokenPacketDataV2 tokens sender receiver []
                                   (NewForwardingPacketData memo hops))), None))) \<and>
   (hops = [] \<longrightarrow>
      createPacketDataBytesFromVersion ty V2 sender receiver memo tokens hops =
        (case ValidateBasic ty (NewFungibleTokenPacketDataV2 tokens sender receiver memo
                                  (NewForwardingPacketData [] [])) of
           Some err \<Rightarrow> (None, Some (Wrap err ''failed to validate ics20-2 packet data''))
         | None \<Rightarrow>
             (Some (GetBytes ty (NewFungibleTokenPacketDataV2 tokens sender receiver memo
                                   (NewForwardingPacketData [] []))), None)))"
  by (simp add: createPacketDataBytesFromVersion_def packetDataV2_def V1_def V2_def Let_def)

theorem v2_moves_memo_into_forwarding_witness:
  "[NewHop ''transfer'' ''channel-1''] \<noteq> [] \<and>
   createPacketDataBytesFromVersion demoTypes V2 ''alice'' ''bob'' ''memo''
     [Token (NewDenom ''uatom'' []) ''4''] [NewHop ''transfer'' ''channel-1''] =
     (Some (GetBytes demoTypes
        (NewFungibleTokenPacketDataV2 [Token (NewDenom ''uatom'' []) ''4''] ''alice'' ''bob'' []
           (NewForwardingPacketData ''memo'' [NewHop ''transfer'' ''channel-1'']))), None)"
proof -
  have hops: "[NewHop ''transfer'' ''channel-1''] \<noteq> []" by simp
  have valid: "ValidateBasic demoTypes
        (NewFungibleTokenPacketDataV2 [Token (NewDenom ''uatom'' []) ''4''] ''alice'' ''bob'' []
           (NewForwardingPacketData ''memo'' [NewHop ''transfer'' ''channel-1''])) = None"
    by (simp add: demo_defs)
  from v2_moves_memo_into_forwarding[of "[NewHop ''transfer'' ''channel-1'']" demoTypes
      "''alice''" "''bob''" "''memo''" "[Token (NewDenom ''uatom'' []) ''4'']",
      THEN conjunct1, THEN mp, OF hops]
  have "createPacketDataBytesFromVersion demoTypes V2 ''alice'' ''bob'' ''memo''
     [Token (NewDenom ''uatom'' []) ''4''] [NewHop ''transfer'' ''channel-1''] =
     (Some (GetBytes demoTypes
        (NewFungibleTokenPacketDataV2 [Token (NewDenom ''uatom'' []) ''4''] ''alice'' ''bob'' []
           (NewForwardingPacketData ''memo'' [NewHop ''transfer'' ''channel-1'']))), None)"
    by (simp add: valid)
  with hops show ?thesis by blast
qed

section \<open>SendTransfer runs over the tokens it was given\<close>

lemma SendTransfer_range_processEach:
  "(case SendTransfer_range k sourcePort sourceChannel sender rest tokens ctx of
      (r, tokens1, ctx1) \<Rightarrow> (r, ctx1)) =
   processEach (\<lambda>c token. SendTransfer_token k c sourcePort sourceChannel sender token) ctx rest"
proof (induction rest arbitrary: tokens ctx)
  case Nil
  show ?case by simp
next
  case (Cons token rest)
  obtain r ctx1 where step:
    "SendTransfer_token k ctx sourcePort sourceChannel sender token = (r, ctx1)"
    by (cases "SendTransfer_token k ctx sourcePort sourceChannel sender token")
  show ?case
  proof (cases r)
    case (Success u)
    with step Cons.IH[of "tokens @ [token]" ctx1] show ?thesis by simp
  next
    case (Failure err)
    with step show ?thesis by simp
  next
    case (Fatal m)
    with step show ?thesis by simp
  qed
qed

lemma SendTransfer_range_tokens:
  "SendTransfer_range k sourcePort sourceChannel sender rest tokens ctx = (Success u, tokens1, ctx1)
   \<Longrightarrow> tokens1 = tokens @ rest"
proof (induction rest arbitrary: tokens ctx)
  case Nil
  then show ?case by simp
next
  case (Cons token rest)
  obtain r ctx0 where step:
    "SendTransfer_token k ctx sourcePort sourceChannel sender token = (r, ctx0)"
    by (cases "SendTransfer_token k ctx sourcePort sourceChannel sender token")
  show ?case
  proof (cases r)
    case (Success v)
    with step Cons.prems
    have "SendTransfer_range k sourcePort sourceChannel sender rest (tokens @ [token]) ctx0 =
            (Success u, tokens1, ctx1)"
      by simp
    from Cons.IH[OF this] show ?thesis by simp
  next
    case (Failure err)
    with step Cons.prems show ?thesis by simp
  next
    case (Fatal m)
    with step Cons.prems show ?thesis by simp
  qed
qed

text \<open>
  Claim C10. With both gates passed, SendTransfer on a list of tokens does what processing
  each token of that list once, in the order of the list, does (up to the first token
  that fails). Line 107 appends every processed token to the variable tokens, so that a
  loop that returns nil leaves the variable holding the list twice over; the loop runs
  over the list as it was given all the same: its outcome and the context it leaves do
  not depend on what the variable holds, and the appended copies are not processed and
  add no effect.
\<close>

theorem send_transfer_each_token_once:
  assumes "SendEnabled (GetParams ctx)" and "\<not> IsBlockedAddr k sender"
  shows
    "SendTransfer k ctx sourcePort sourceChannel tokens sender =
       processEach (\<lambda>c token. SendTransfer_token k c sourcePort sourceChannel sender token)
         ctx tokens \<and>
     (case SendTransfer_range k sourcePort sourceChannel sender tokens variable ctx of
        (r, tokens1, ctx1) \<Rightarrow> (r, ctx1)) =
       SendTransfer k ctx sourcePort sourceChannel tokens sender \<and>
     (fst (SendTransfer_range k sourcePort sourceChannel sender tokens tokens ctx) = Success ()
        \<longrightarrow> fst (snd (SendTransfer_range k sourcePort sourceChannel sender tokens tokens ctx)) =
              tokens @ tokens)"
proof (intro conjI)
  show "(case SendTransfer_range k sourcePort sourceChannel sender tokens variable ctx of
        (r, tokens1, ctx1) \<Rightarrow> (r, ctx1)) =
       SendTransfer k ctx sourcePort sourceChannel tokens sender"
    using assms
    by (simp add: SendTransfer_def SendTransfer_range_processEach)
  show "SendTransfer k ctx sourcePort sourceChannel tokens sender =
       processEach (\<lambda>c token. SendTransfer_token k c sourcePort sourceChannel sender token)
         ctx tokens"
    using assms
    by (simp add: SendTransfer_def SendTransfer_range_processEach)
  show "fst (SendTransfer_range k sourcePort sourceChannel sender tokens tokens ctx) = Success ()
        \<longrightarrow> fst (snd (SendTransfer_range k sourcePort sourceChannel sender tokens tokens ctx)) =
              tokens @ tokens"
    using SendTransfer_range_tokens[of k sourcePort sourceChannel sender tokens tokens ctx "()"]
    by (cases "SendTransfer_range k sourcePort sourceChannel sender tokens tokens ctx") auto
qed

theorem send_transfer_each_token_once_witness:
  "SendEnabled (GetParams demoCtx) \<and> \<not> IsBlockedAddr (demoKeeper False) ''alice'' \<and>
   fst (SendTransfer (demoKeeper False) demoCtx ''transfer'' ''channel-0''
          [Token (NewDenom ''uatom'' []) ''5'',
           Token (NewDenom ''uatom'' [NewHop ''transfer'' ''channel-0'']) ''4''] ''alice'') =
     Success () \<and>
   totalEscrow (snd (SendTransfer (demoKeeper False) demoCtx ''transfer'' ''channel-0''
          [Token (NewDenom ''uatom'' []) ''5'',
           Token (NewDenom ''uatom'' [NewHop ''transfer'' ''channel-0'']) ''4''] ''alice''))
     ''uatom'' = 5 \<and>
   bank (snd (SendTransfer (demoKeeper False) demoCtx ''transfer'' ''channel-0''
          [Token (NewDenom ''uatom'' []) ''5'',
           Token (NewDenom ''uatom'' [NewHop ''transfer'' ''channel-0'']) ''4''] ''alice''))
     (''alice'', ''uatom'') = 5 \<and>
   bank (snd (SendTransfer (demoKeeper False) demoCtx ''transfer'' ''channel-0''
          [Token (NewDenom ''uatom'' []) ''5'',
           Token (NewDenom ''uatom'' [NewHop ''transfer'' ''channel-0'']) ''4''] ''alice''))
     (''alice'', ''transfer/channel-0/uatom'') = 3"
proof -
  let ?tokens = "[Token (NewDenom ''uatom'' []) ''5'',
                  Token (NewDenom ''uatom'' [NewHop ''transfer'' ''channel-0'']) ''4'']"
  have gate: "SendEnabled (GetParams demoCtx)"
    by (simp add: demoCtx_def)
  have free: "\<not> IsBlockedAddr (demoKeeper False) ''alice''"
    by (simp add: demoKeeper_def)
  note run = send_transfer_each_token_once[OF gate free, of "''transfer''" "''channel-0''" ?tokens,
      THEN conjunct1]
  have "fst (SendTransfer (demoKeeper False) demoCtx ''transfer'' ''channel-0'' ?tokens ''alice'') =
          Success () \<and>
        totalEscrow (snd (SendTransfer (demoKeeper False) demoCtx ''transfer'' ''channel-0''
          ?tokens ''alice'')) ''uatom'' = 5 \<and>
        bank (snd (SendTransfer (demoKeeper False) demoCtx ''transfer'' ''channel-0''
          ?tokens ''alice'')) (''alice'', ''uatom'') = 5 \<and>
        bank (snd (SendTransfer (demoKeeper False) demoCtx ''transfer'' ''channel-0''
          ?tokens ''alice'')) (''alice'', ''transfer/channel-0/uatom'') = 3"
    unfolding run
    by (simp add: demo_defs escrow_defs SendTransfer_token_def ToCoin_def Path_def HasPrefix_def
        ModuleName_def)
  with gate free show ?thesis by blast
qed

end
